theory Spec2Isabelle
  imports Main "HOL-Library.AList" "HOL-Library.Sublist"
begin

section \<open>Python built-ins and library calls used by \<open>lib/ansible/cli/pull.py\<close>\<close>

text \<open>
  Strings are byte lists. The generic argument map \<open>self.scm_args\<close> is a Python dict; it is
  an association list here, read with \<open>map_of\<close>, written with \<open>AList.update\<close> (an existing
  key keeps its place, a new key goes last, as in a dict that keeps insertion order) and
  shrunk with \<open>AList.delete\<close>.
\<close>

type_synonym args_dict = "(string \<times> string) list"

text \<open>\<open>sep.join(xs)\<close>.\<close>

fun str_join :: "string \<Rightarrow> string list \<Rightarrow> string" where
  "str_join sep [] = []"
| "str_join sep [x] = x"
| "str_join sep (x # y # ys) = x @ sep @ str_join sep (y # ys)"

text \<open>\<open>s.split('.')[0]\<close>: the part of \<open>s\<close> before its first dot.\<close>

definition before_first_dot :: "string \<Rightarrow> string" where
  "before_first_dot s = takeWhile (\<lambda>c. c \<noteq> CHR ''.'') s"

text \<open>
  \<open>os.path.join(a, b)\<close> of \<open>posixpath\<close> for two components: an absolute \<open>b\<close> replaces
  \<open>a\<close>; otherwise one slash separates them unless \<open>a\<close> is empty or already ends in one.
\<close>

definition path_join :: "string \<Rightarrow> string \<Rightarrow> string" where
  "path_join a b =
     (if b \<noteq> [] \<and> hd b = CHR ''/'' then b
      else if a = [] \<or> last a = CHR ''/'' then a @ b
      else a @ ''/'' @ b)"

text \<open>
  The values \<open>self.options.sleep\<close> takes: \<open>None\<close> (the option's default), the string
  given on the command line, and the integer \<open>parse\<close> stores back.
\<close>

datatype pyval = PyNone | PyStr string | PyInt int

text \<open>
  \<open>random.randint(a, b)\<close>: some integer of \<open>[a, b]\<close>, picked by the random source \<open>r\<close>;
  \<open>None\<close> stands for the \<open>ValueError\<close> ("empty range for randrange()") raised when \<open>b < a\<close>.
\<close>

definition randint :: "nat \<Rightarrow> int \<Rightarrow> int \<Rightarrow> int option" where
  "randint r a b = (if b < a then None else Some (a + int (r mod nat (b - a + 1))))"

text \<open>\<open>"%d" % n\<close> and \<open>"%s" % v\<close>.\<close>

fun show_nat :: "nat \<Rightarrow> string" where
  "show_nat n =
     (if n < 10 then [char_of (48 + n)]
      else show_nat (n div 10) @ [char_of (48 + n mod 10)])"

definition show_int :: "int \<Rightarrow> string" where
  "show_int i = (if i < 0 then ''-'' @ show_nat (nat (- i)) else show_nat (nat i))"

fun py_str :: "pyval \<Rightarrow> string" where
  "py_str PyNone = ''None''"
| "py_str (PyStr s) = s"
| "py_str (PyInt i) = show_int i"

text \<open>\<open>text_type(v)\<close> of an option that holds a string or \<open>None\<close>.\<close>

fun text_type :: "string option \<Rightarrow> string" where
  "text_type None = ''None''"
| "text_type (Some s) = s"

text \<open>Truth of a string-or-\<open>None\<close> option in a condition: \<open>None\<close> and \<open>''\<close> are false.\<close>

fun truthy :: "string option \<Rightarrow> bool" where
  "truthy None = False"
| "truthy (Some s) = (s \<noteq> [])"

text \<open>
  \<open>shlex_quote(s)\<close> (\<open>shlex.quote\<close>): the empty string becomes two quotes, a string of safe
  characters is left alone, any other is wrapped in single quotes with each inner single
  quote spelled \<open>'"'"'\<close>.
\<close>

definition shell_safe :: "char \<Rightarrow> bool" where
  "shell_safe c \<longleftrightarrow>
     c \<in> set ''abcdefghijklmnopqrstuvwxyzABCDEFGHIJKLMNOPQRSTUVWXYZ0123456789_@%+=:,./-''"

definition shlex_quote :: "string \<Rightarrow> string" where
  \<open>shlex_quote s =
     (if s = [] then [CHR 0x27, CHR 0x27]
      else if list_all shell_safe s then s
      else [CHR 0x27]
           @ concat (map (\<lambda>c. if c = CHR 0x27 then [CHR 0x27, CHR 0x22, CHR 0x27, CHR 0x22, CHR 0x27]
                                else [c]) s)
           @ [CHR 0x27])\<close>

section \<open>Options, errors, effects and the environment\<close>

text \<open>
  Exceptions are values. \<open>AnsibleOptionsError\<close> is the configuration error of
  \<open>ansible.errors\<close> that \<open>pull.py\<close> raises, with its message; \<open>Exception\<close> is an exception
  raised inside a callee (\<open>parse_kv\<close>, \<open>validate_conflicts\<close>, \<open>os.chdir\<close>, \<open>os.path.join\<close>,
  \<open>time.sleep\<close>, the \<open>%d\<close> format) that leaves \<open>parse\<close> or \<open>run\<close> uncaught, with its text.
\<close>

datatype error = AnsibleOptionsError string | Exception string

text \<open>An entry of \<open>self.options.inventory\<close>: a list of sources or one source.\<close>

datatype inventory_item = InvList "string list" | InvStr string

text \<open>
  \<open>self.options\<close> after the base class has read the command line: the options \<open>parse\<close>
  adds, and those of the base parser that \<open>parse\<close> and \<open>run\<close> read. A flag that is \<open>None\<close>
  or \<open>False\<close> when not given (\<open>fullclone\<close>) is a \<open>bool\<close>. The fields \<open>module_name_opt\<close> and
  \<open>subset_opt\<close> are \<open>options.module_name\<close> and \<open>options.subset\<close>, whose own names are taken.
\<close>

record options =
  purge :: bool
  ifchanged :: bool
  sleep :: pyval
  force :: bool
  dest :: "string option"
  url :: "string option"
  fullclone :: bool
  checkout :: "string option"
  accept_host_key :: bool
  module_args :: "string option"
  module_name_opt :: string
  verify :: bool
  clean :: bool
  tracksubs :: bool
  check :: bool
  diff :: bool
  verbosity :: nat
  inventory :: "inventory_item list"
  private_key_file :: "string option"
  extra_vars :: "string list"
  vault_password_files :: "string list"
  vault_ids :: "string list"
  ask_sudo_pass :: bool
  ask_su_pass :: bool
  become_ask_pass :: bool
  skip_tags :: "string list"
  tags :: "string list"
  subset_opt :: "string option"

text \<open>
  What \<open>run\<close> does to the outside, in order: the calls on \<open>display\<close>, the two subprocesses
  (\<open>Exec\<close> is \<open>run_cmd\<close>), the nap and the calls that change the file system.
\<close>

datatype event =
    Display string
  | Warning string
  | ErrorMsg string
  | Debug string
  | Vvvv string
  | Exec string
  | Sleep int
  | Chdir string
  | Rmtree string

text \<open>
  Everything \<open>pull.py\<close> calls and does not define, over a state of the outside world \<open>'w\<close>
  (the file system, the repository, the clock). The reads take the world; the actions
  take it and return the next one.
  \<^item> \<open>socket_getfqdn\<close>, \<open>platform_node\<close>, \<open>sys_argv\<close>: the host's names and the command line;
    \<open>bin_path\<close> is \<open>os.path.dirname(os.path.abspath(sys.argv[0]))\<close>, \<open>now_text\<close> is
    \<open>now.strftime("%F %T")\<close>, \<open>expand\<close> is \<open>os.path.expandvars(os.path.expanduser(p))\<close>.
  \<^item> \<open>random_source\<close> feeds \<open>randint\<close>; \<open>set_order\<close> is the order in which Python iterates
    over the set built from a list.
  \<^item> \<open>py_int\<close> is the built-in \<open>int\<close> on a string: the integer it reads, or \<open>None\<close> for the
    \<open>ValueError\<close> it raises. Which strings \<open>int\<close> reads is a matter of the interpreter
    (the whitespace it strips, the digits it knows beyond ASCII, underscores between
    digits, a limit on the number of digits), so nothing is fixed about it here.
  \<^item> \<open>find_plugin\<close> is \<open>module_loader.find_plugin\<close>.
  \<^item> \<open>parse_kv\<close> (\<open>ansible.parsing.splitter\<close>) and \<open>validate_conflicts\<close> (the base class
    \<open>CLI\<close>) belong to Ansible but not to \<open>pull.py\<close>; each returns, or raises an exception
    given by its text.
  \<^item> \<open>os_path_exists\<close>, \<open>os_path_isdir\<close>, \<open>os_access_r\<close> (\<open>os.access(p, os.R_OK)\<close>) read the
    file system; \<open>os_chdir\<close> may raise (\<open>Inl\<close> the text); \<open>shutil_rmtree\<close> returns the text of
    the exception it raised, if any; \<open>run_cmd\<close> returns \<open>(rc, b_out, b_err)\<close>.
\<close>

record 'w env =
  socket_getfqdn :: string
  platform_node :: string
  sys_argv :: "string list"
  bin_path :: string
  now_text :: string
  expand :: "string \<Rightarrow> string"
  random_source :: nat
  py_int :: "string \<Rightarrow> int option"
  set_order :: "string list \<Rightarrow> string list"
  find_plugin :: "string \<Rightarrow> string option"
  parse_kv :: "string \<Rightarrow> string + args_dict"
  validate_conflicts :: "options \<Rightarrow> string option"
  os_path_exists :: "'w \<Rightarrow> string \<Rightarrow> bool"
  os_path_isdir :: "'w \<Rightarrow> string \<Rightarrow> bool"
  os_access_r :: "'w \<Rightarrow> string \<Rightarrow> bool"
  os_chdir :: "string \<Rightarrow> 'w \<Rightarrow> string + 'w"
  shutil_rmtree :: "string \<Rightarrow> 'w \<Rightarrow> string option \<times> 'w"
  run_cmd :: "string \<Rightarrow> 'w \<Rightarrow> (int \<times> string \<times> string) \<times> 'w"
  time_sleep :: "int \<Rightarrow> 'w \<Rightarrow> 'w"

section \<open>The class constants of \<open>PullCLI\<close>\<close>

definition DEFAULT_REPO_TYPE :: string where
  "DEFAULT_REPO_TYPE = ''git''"

definition DEFAULT_PLAYBOOK :: string where
  "DEFAULT_PLAYBOOK = ''local.yml''"

definition REPO_CHOICES :: "string list" where
  "REPO_CHOICES = [''git'', ''subversion'', ''hg'', ''bzr'']"

text \<open>The dict \<open>PLAYBOOK_ERRORS\<close>, read only at the codes 1 and 2 of \<open>try_playbook\<close>.\<close>

fun PLAYBOOK_ERRORS :: "nat \<Rightarrow> string" where
  "PLAYBOOK_ERRORS n = (if n = 1 then ''File does not exist'' else ''File is not readable'')"

definition SUPPORTED_REPO_MODULES :: "string list" where
  "SUPPORTED_REPO_MODULES = [''git'']"

section \<open>\<open>PullCLI.parse\<close>: option reconciliation\<close>

text \<open>
  The messages of the configuration errors \<open>parse\<close> raises, in the order of the source.
\<close>

definition not_a_directory_msg :: "string \<Rightarrow> string" where
  "not_a_directory_msg d = d @ '' is not a valid or accessible directory.''"

definition not_a_number_msg :: "pyval \<Rightarrow> string" where
  "not_a_number_msg v = py_str v @ '' is not a number.''"

definition no_url_msg :: string where
  "no_url_msg = ''URL for repository not specified, use -h for help''"

definition unsupported_repo_module_msg :: "string \<Rightarrow> string" where
  "unsupported_repo_module_msg m =
     ''Unsupported repo module '' @ m @ '', choices are '' @ str_join '','' SUPPORTED_REPO_MODULES"

definition dest_arg_msg :: string where
  "dest_arg_msg =
     ''--module-args 'dest=<repo destination>' cannot be used, please use -d or --directory instead''"

definition name_arg_msg :: string where
  "name_arg_msg =
     ''--module-args 'name=<repo URL>' cannot be used, please use -U or --url instead''"

definition repo_arg_msg :: string where
  "repo_arg_msg =
     ''--module-args 'repo=<repo URL>' cannot be used, please use -U or --url instead''"

text \<open>
  Lines 150 to 155: the sleep option. An option that is \<open>None\<close>, \<open>''\<close> or \<open>0\<close> is false and
  is left as it is; any other is read by \<open>int\<close> (\<open>int_of\<close>, which of an integer is that
  integer), and a number drawn from \<open>[0, int(sleep)]\<close> replaces it. Both \<open>int\<close> and
  \<open>random.randint\<close> raise \<open>ValueError\<close>, which the one \<open>except\<close> clause turns into the
  configuration error.
\<close>

definition resolve_sleep :: "(string \<Rightarrow> int option) \<Rightarrow> nat \<Rightarrow> pyval \<Rightarrow> error + pyval" where
  "resolve_sleep int_of r v =
     (case v of
        PyNone \<Rightarrow> Inr v
      | PyStr s \<Rightarrow>
          if s = [] then Inr v
          else (case int_of s of
                  None \<Rightarrow> Inl (AnsibleOptionsError (not_a_number_msg v))
                | Some n \<Rightarrow>
                    (case randint r 0 n of
                       None \<Rightarrow> Inl (AnsibleOptionsError (not_a_number_msg v))
                     | Some secs \<Rightarrow> Inr (PyInt secs)))
      | PyInt n \<Rightarrow>
          if n = 0 then Inr v
          else (case randint r 0 n of
                  None \<Rightarrow> Inl (AnsibleOptionsError (not_a_number_msg v))
                | Some secs \<Rightarrow> Inr (PyInt secs)))"

text \<open>Lines 141 to 145: the checkout directory.\<close>

definition resolved_dest :: "'w env \<Rightarrow> options \<Rightarrow> string" where
  "resolved_dest e opts =
     expand e (if \<not> truthy (dest opts)
               then path_join ''~/.ansible/pull'' (socket_getfqdn e)
               else text_type (dest opts))"

text \<open>
  \<open>parse\<close>, from the line after \<open>super(PullCLI, self).parse()\<close>, which leaves the options
  read from the command line in \<open>self.options\<close>. The result is the exception raised, or the
  reconciled options together with \<open>self.scm_args\<close>.

  Lines 141 to 158 first: the checkout directory, the sleep option and the URL.
\<close>

definition parse_flags :: "'w env \<Rightarrow> 'w \<Rightarrow> options \<Rightarrow> error + options" where
  "parse_flags e w opts =
     (let dest2 = resolved_dest e opts;
          opts1 = opts\<lparr>dest := Some dest2\<rparr>
      in
      if os_path_exists e w dest2 \<and> \<not> os_path_isdir e w dest2
      then Inl (AnsibleOptionsError (not_a_directory_msg dest2))
      else
        (case resolve_sleep (py_int e) (random_source e) (sleep opts1) of
           Inl err \<Rightarrow> Inl err
         | Inr secs \<Rightarrow>
             let opts2 = opts1\<lparr>sleep := secs\<rparr> in
             if \<not> truthy (url opts2)
             then Inl (AnsibleOptionsError no_url_msg)
             else Inr opts2))"

text \<open>
  Then lines 160 to 180: the module arguments, the module name, the reserved keys and the
  conflicts the base class checks. (Line 179 sets the verbosity of \<open>display\<close>, which is not
  part of the state here.)
\<close>

definition parse :: "'w env \<Rightarrow> 'w \<Rightarrow> options \<Rightarrow> error + (options \<times> args_dict)" where
  "parse e w opts =
     (case parse_flags e w opts of
        Inl err \<Rightarrow> Inl err
      | Inr opts2 \<Rightarrow>
          (case (if truthy (module_args opts2)
                 then parse_kv e (text_type (module_args opts2))
                 else Inr []) of
             Inl x \<Rightarrow> Inl (Exception x)
           | Inr scm_args \<Rightarrow>
               if module_name_opt opts2 \<notin> set SUPPORTED_REPO_MODULES
               then Inl (AnsibleOptionsError (unsupported_repo_module_msg (module_name_opt opts2)))
               else if map_of scm_args ''dest'' \<noteq> None
               then Inl (AnsibleOptionsError dest_arg_msg)
               else if module_name_opt opts2 \<in> set [''bzr'', ''git'']
                       \<and> map_of scm_args ''name'' \<noteq> None
                       \<and> map_of scm_args ''name'' \<noteq> url opts2
               then Inl (AnsibleOptionsError name_arg_msg)
               else if module_name_opt opts2 \<in> set [''hg'', ''subversion'']
                       \<and> map_of scm_args ''repo'' \<noteq> None
                       \<and> map_of scm_args ''repo'' \<noteq> url opts2
               then Inl (AnsibleOptionsError repo_arg_msg)
               else
                 (case validate_conflicts e opts2 of
                    Some x \<Rightarrow> Inl (Exception x)
                  | None \<Rightarrow> Inr (opts2, scm_args))))"

section \<open>\<open>PullCLI.try_playbook\<close> and \<open>PullCLI.select_playbook\<close>\<close>

definition try_playbook :: "'w env \<Rightarrow> 'w \<Rightarrow> string \<Rightarrow> nat" where
  "try_playbook e w path =
     (if \<not> os_path_exists e w path then 1
      else if \<not> os_access_r e w path then 2
      else 0)"

text \<open>
  The \<open>for pb in [hostpb, shorthostpb, localpb]\<close> loop: it stops at the first candidate
  \<open>try_playbook\<close> accepts and collects a line in \<open>errors\<close> for each one it passes over.
\<close>

fun try_candidates ::
  "'w env \<Rightarrow> 'w \<Rightarrow> string list \<Rightarrow> string list \<Rightarrow> string option \<times> string list" where
  "try_candidates e w errors [] = (None, errors)"
| "try_candidates e w errors (pb # pbs) =
     (let rc = try_playbook e w pb in
      if rc = 0 then (Some pb, errors)
      else try_candidates e w (errors @ [pb @ '': '' @ PLAYBOOK_ERRORS rc]) pbs)"

text \<open>
  \<open>select_playbook(path)\<close> reads \<open>self.args\<close>, the positional arguments. The result is the
  playbook (\<open>None\<close> when there is none) and the warnings given on the way.
\<close>

definition select_playbook ::
  "'w env \<Rightarrow> 'w \<Rightarrow> string option list \<Rightarrow> string \<Rightarrow> string option \<times> event list" where
  "select_playbook e w args path =
     (case (case args of [] \<Rightarrow> None | a # _ \<Rightarrow> a) of
        Some a \<Rightarrow>
          let playbook = path_join path a;
              rc = try_playbook e w playbook
          in if rc \<noteq> 0 then (None, [Warning (playbook @ '': '' @ PLAYBOOK_ERRORS rc)])
             else (Some playbook, [])
      | None \<Rightarrow>
          let fqdn = socket_getfqdn e;
              hostpb = path_join path (fqdn @ ''.yml'');
              shorthostpb = path_join path (before_first_dot fqdn @ ''.yml'');
              localpb = path_join path DEFAULT_PLAYBOOK;
              (playbook, errors) = try_candidates e w [] [hostpb, shorthostpb, localpb]
          in (playbook, if playbook = None then [Warning (str_join [CHR 0x0A] errors)] else []))"

section \<open>\<open>PullCLI.run\<close>: the execution orchestrator\<close>

subsection \<open>Command line pieces\<close>

text \<open>\<open>_get_inv_cli\<close>: the inventory options, for the file system as it is when called.\<close>

fun inv_cli_item :: "'w env \<Rightarrow> 'w \<Rightarrow> inventory_item \<Rightarrow> string" where
  "inv_cli_item e w (InvList invs) = '' -i '' @ [CHR 0x27] @ str_join '','' invs @ [CHR 0x27] @ '' ''"
| "inv_cli_item e w (InvStr src) =
     (if CHR '','' \<in> set src \<or> os_path_exists e w src then '' -i '' @ src @ '' '' else [])"

definition get_inv_cli :: "'w env \<Rightarrow> 'w \<Rightarrow> options \<Rightarrow> string" where
  "get_inv_cli e w opts = concat (map (inv_cli_item e w) (inventory opts))"

definition limit_opts :: "'w env \<Rightarrow> string" where
  "limit_opts e =
     (let node = platform_node e; host = socket_getfqdn e in
      ''localhost,''
      @ str_join '','' (set_order e [host, node, before_first_dot host, before_first_dot node])
      @ '',127.0.0.1'')"

definition base_opts :: "options \<Rightarrow> string" where
  "base_opts opts =
     ''-c local '' @ (if verbosity opts > 0 then '' -'' @ replicate (verbosity opts) CHR ''v'' else [])"

definition unsupported_scm_msg :: "string \<Rightarrow> string" where
  "unsupported_scm_msg m =
     ''Unsupported ('' @ m @ '') SCM module for pull, choices are: '' @ str_join '','' REPO_CHOICES"

definition module_not_found_msg :: "string \<Rightarrow> string" where
  "module_not_found_msg m = ''module '' @ [CHR 0x27] @ m @ [CHR 0x27] @ '' not found.'' @ [CHR 0x0A]"

definition no_playbook_msg :: string where
  "no_playbook_msg = ''Could not find a playbook to run.''"

subsection \<open>SCM options (lines 210 to 272)\<close>

text \<open>
  The block works on \<open>self.scm_args\<close> and warns on \<open>display\<close>; here it maps the dict to the
  new dict and the warnings. A value is stored as the text \<open>text_type\<close> gives for it, which
  is all that is read of it afterwards. \<open>set_arg\<close> is a plain assignment; \<open>override_arg\<close>
  is the assignment of a legacy flag's value, warning first if the key is there already.
\<close>

definition set_arg ::
  "string \<Rightarrow> string \<Rightarrow> args_dict \<times> event list \<Rightarrow> args_dict \<times> event list" where
  "set_arg k v st = (AList.update k v (fst st), snd st)"

definition overridden_msg :: "string \<Rightarrow> string \<Rightarrow> string" where
  "overridden_msg k flag =
     ''--module-args '' @ [CHR 0x27] @ k @ [CHR 0x27]
     @ '' argument was provided but is being overridden by '' @ flag
     @ '' for backward compatibility''"

definition removed_msg :: "string \<Rightarrow> string" where
  "removed_msg k =
     ''--module-args '' @ [CHR 0x27] @ k @ [CHR 0x27]
     @ '' argument was provided but is being removed by --full for backward compatibility''"

definition override_arg ::
  "string \<Rightarrow> string \<Rightarrow> string \<Rightarrow> args_dict \<times> event list \<Rightarrow> args_dict \<times> event list" where
  "override_arg k v flag st =
     (AList.update k v (fst st),
      snd st @ (if map_of (fst st) k \<noteq> None then [Warning (overridden_msg k flag)] else []))"

text \<open>\<open>if c: ...\<close> with no \<open>else\<close>: the statements \<open>f\<close> run when \<open>c\<close> holds.\<close>

definition when_flag :: "bool \<Rightarrow> ('a \<Rightarrow> 'a) \<Rightarrow> 'a \<Rightarrow> 'a" where
  "when_flag c f st = (if c then f st else st)"

text \<open>
  The shallow default of git (lines 240 to 246, \<open>depth\<close>) and of subversion (lines 266 to
  272, \<open>export\<close>): without \<open>--full\<close> the key gets its default unless it is set; with
  \<open>--full\<close> a key that is set is deleted, with a warning.
\<close>

definition shallow_default ::
  "string \<Rightarrow> string \<Rightarrow> bool \<Rightarrow> args_dict \<times> event list \<Rightarrow> args_dict \<times> event list" where
  "shallow_default k v full st =
     (if \<not> full \<and> map_of (fst st) k = None then set_arg k v st
      else if full \<and> map_of (fst st) k \<noteq> None
      then (AList.delete k (fst st), snd st @ [Warning (removed_msg k)])
      else st)"

definition scm_options :: "options \<Rightarrow> args_dict \<Rightarrow> args_dict \<times> event list" where
  "scm_options opts scm_args =
     (let m = module_name_opt opts;
          s1 = set_arg ''dest'' (text_type (dest opts)) (scm_args, []);
          s2 = when_flag (m \<in> set [''bzr'', ''git'']) (set_arg ''name'' (text_type (url opts))) s1;
          s3 = when_flag (m \<in> set [''hg'', ''subversion''])
                 (set_arg ''repo'' (text_type (url opts))) s2;
          s4 = when_flag (truthy (checkout opts) \<and> m \<in> set [''bzr'', ''git'', ''hg'', ''subversion''])
                 (override_arg (if m \<in> set [''bzr'', ''git''] then ''version'' else ''revision'')
                    (text_type (checkout opts)) ''deprecated -C or --checkout'') s3;
          s5 = when_flag (clean opts) (set_arg ''force'' ''yes'') s4
      in
      if m = ''git'' then
        (let g1 = when_flag (accept_host_key opts)
                    (override_arg ''accept_hostkey'' ''yes'' ''deprecated --accept-host-key'') s5;
             g2 = shallow_default ''depth'' ''1'' (fullclone opts) g1;
             g3 = when_flag (truthy (private_key_file opts))
                    (override_arg ''key_file'' (text_type (private_key_file opts))
                       ''--key-file or --private-key'') g2;
             g4 = when_flag (tracksubs opts)
                    (override_arg ''track_submodules'' ''yes'' ''deprecated --track-subs'') g3;
             g5 = when_flag (verify opts)
                    (override_arg ''verify_commit'' ''yes'' ''deprecated --verify-commit'') g4
         in g5)
      else if m = ''subversion'' then shallow_default ''export'' ''yes'' (fullclone opts) s5
      else s5)"

subsection \<open>The two commands\<close>

definition scm_args_str :: "args_dict \<Rightarrow> string" where
  "scm_args_str scm_args = concat (map (\<lambda>(k, v). k @ ''='' @ shlex_quote v @ '' '') scm_args)"

definition extra_vars_opts :: "options \<Rightarrow> string" where
  \<open>extra_vars_opts opts = concat (map (\<lambda>ev. '' -e "'' @ ev @ ''"'') (extra_vars opts))\<close>

definition checkout_cmd :: "'w env \<Rightarrow> string \<Rightarrow> options \<Rightarrow> args_dict \<Rightarrow> string" where
  \<open>checkout_cmd e inv_opts opts scm_args =
     bin_path e @ ''/ansible '' @ inv_opts @ '' '' @ base_opts opts @ '' -m '' @ module_name_opt opts
     @ '' -a '' @ shlex_quote (scm_args_str scm_args) @ '' all -l "'' @ limit_opts e @ ''"''
     @ extra_vars_opts opts\<close>

definition playbook_cmd :: "'w env \<Rightarrow> options \<Rightarrow> string \<Rightarrow> string" where
  \<open>playbook_cmd e opts playbook =
     bin_path e @ ''/ansible-playbook '' @ base_opts opts @ '' '' @ playbook
     @ concat (map (\<lambda>f. '' --vault-password-file='' @ f) (vault_password_files opts))
     @ concat (map (\<lambda>v. '' --vault-id='' @ v) (vault_ids opts))
     @ extra_vars_opts opts
     @ (if ask_sudo_pass opts \<or> ask_su_pass opts \<or> become_ask_pass opts
        then '' --ask-become-pass'' else [])
     @ (if skip_tags opts \<noteq> [] then '' --skip-tags "'' @ str_join '','' (skip_tags opts) @ ''"''
        else [])
     @ (if tags opts \<noteq> [] then '' -t "'' @ str_join '','' (tags opts) @ ''"'' else [])
     @ (if truthy (subset_opt opts) then '' -l "'' @ text_type (subset_opt opts) @ ''"''
        else '' -l "'' @ limit_opts e @ ''"'')
     @ (if check opts then '' -C'' else [])
     @ (if diff opts then '' -D'' else [])\<close>

subsection \<open>The phases of \<open>run\<close>\<close>

text \<open>
  Every phase returns what it raised or computed, the events it caused and the world it
  left. The call of the base class's \<open>run\<close> in the first line only writes to \<open>display\<close> at
  raised verbosity and is left out.

  Lines 291 to 293, the nap. After \<open>parse\<close> the sleep option is \<open>None\<close>, \<open>''\<close> or a
  number of \<open>[0, N]\<close>; for completeness a non-empty string fails in the \<open>%d\<close> format and a
  negative number in \<open>time.sleep\<close>.
\<close>

definition nap :: "'w env \<Rightarrow> 'w \<Rightarrow> pyval \<Rightarrow> error option \<times> event list \<times> 'w" where
  "nap e w v =
     (case v of
        PyNone \<Rightarrow> (None, [], w)
      | PyStr s \<Rightarrow> if s = [] then (None, [], w) else (Some (Exception ''TypeError''), [], w)
      | PyInt n \<Rightarrow>
          if n = 0 then (None, [], w)
          else if n < 0
          then (Some (Exception ''ValueError''),
                [Display (''Sleeping for '' @ show_int n @ '' seconds...'')], w)
          else (None, [Display (''Sleeping for '' @ show_int n @ '' seconds...''), Sleep n],
                time_sleep e n w))"

text \<open>Lines 187 to 190: the command line is logged.\<close>

definition log_command_line :: "'w env \<Rightarrow> event list" where
  "log_command_line e =
     [Display (''Starting Ansible Pull at '' @ now_text e),
      Display (str_join '' '' (sys_argv e))]"

text \<open>Lines 203 to 205: the inventory options of the checkout, \<open>localhost\<close> by default.\<close>

definition checkout_inv_opts :: "'w env \<Rightarrow> 'w \<Rightarrow> options \<Rightarrow> string" where
  "checkout_inv_opts e w opts =
     (if get_inv_cli e w opts = [] then '' -i localhost, '' else get_inv_cli e w opts)"

text \<open>Lines 185 to 298: everything up to and including the checkout subprocess.\<close>

definition checkout_phase ::
  "'w env \<Rightarrow> 'w \<Rightarrow> options \<Rightarrow> args_dict \<Rightarrow> (error + int \<times> string \<times> string) \<times> event list \<times> 'w" where
  "checkout_phase e w opts scm_args =
     (let tr0 = log_command_line e;
          inv_opts = checkout_inv_opts e w opts
      in
      if module_name_opt opts \<notin> set REPO_CHOICES
      then (Inl (AnsibleOptionsError (unsupported_scm_msg (module_name_opt opts))), tr0, w)
      else
        (let (scm_args1, warnings) = scm_options opts scm_args;
             tr1 = tr0 @ warnings
         in
         if find_plugin e (module_name_opt opts) = None
         then (Inl (AnsibleOptionsError (module_not_found_msg (module_name_opt opts))), tr1, w)
         else
           (let cmd = checkout_cmd e inv_opts opts scm_args1 in
            case nap e w (sleep opts) of
              (Some err, tr_nap, w1) \<Rightarrow> (Inl err, tr1 @ tr_nap, w1)
            | (None, tr_nap, w1) \<Rightarrow>
                (let (res, w2) = run_cmd e cmd w1 in
                 (Inr res,
                  tr1 @ tr_nap
                  @ [Debug ''running ansible with VCS module to checkout repo'',
                     Vvvv (''EXEC: '' @ cmd), Exec cmd],
                  w2)))))"

text \<open>
  Lines 300 to 307: what the checkout's result means. \<open>Some rc\<close> is an early return of
  \<open>run\<close> with that exit code; \<open>None\<close> lets \<open>run\<close> go on to the playbook.
\<close>

definition changed_marker :: string where
  \<open>changed_marker = ''"changed": true''\<close>

definition checkout_gate :: "options \<Rightarrow> int \<Rightarrow> string \<Rightarrow> int option \<times> event list" where
  "checkout_gate opts rc b_out =
     (if rc \<noteq> 0 then
        (if force opts
         then (None, [Warning ''Unable to update repository. Continuing with (forced) run of playbook.''])
         else (Some rc, []))
      else if ifchanged opts \<and> \<not> sublist changed_marker b_out
      then (Some 0, [Display ''Repository has not changed, quitting.''])
      else (None, []))"

text \<open>Lines 351 to 356: the purge of the checkout.\<close>

definition purge_checkout :: "'w env \<Rightarrow> 'w \<Rightarrow> string \<Rightarrow> error option \<times> event list \<times> 'w" where
  "purge_checkout e w d =
     (case os_chdir e ''/'' w of
        Inl x \<Rightarrow> (Some (Exception x), [Chdir ''/''], w)
      | Inr w1 \<Rightarrow>
          (let (exn, w2) = shutil_rmtree e d w1 in
           (None,
            [Chdir ''/'', Rmtree d]
            @ (case exn of
                 None \<Rightarrow> []
               | Some x \<Rightarrow> [ErrorMsg (''Failed to remove '' @ d @ '': '' @ x)]),
            w2)))"

text \<open>
  Lines 309 to 358: playbook selection, the playbook subprocess and the purge. With
  \<open>self.options.dest\<close> \<open>None\<close>, which \<open>parse\<close> never leaves, \<open>os.path.join\<close> raises.
\<close>

definition playbook_phase ::
  "'w env \<Rightarrow> 'w \<Rightarrow> options \<Rightarrow> string option list \<Rightarrow> (error + int) \<times> event list \<times> 'w" where
  "playbook_phase e w opts args =
     (case dest opts of
        None \<Rightarrow> (Inl (Exception ''TypeError''), [], w)
      | Some d \<Rightarrow>
          (case select_playbook e w args d of
             (None, ws) \<Rightarrow> (Inl (AnsibleOptionsError no_playbook_msg), ws, w)
           | (Some playbook, ws) \<Rightarrow>
               (let cmd0 = playbook_cmd e opts playbook in
                case os_chdir e d w of
                  Inl x \<Rightarrow> (Inl (Exception x), ws @ [Chdir d], w)
                | Inr w1 \<Rightarrow>
                    (let cmd = cmd0 @ get_inv_cli e w1 opts;
                         (res, w2) = run_cmd e cmd w1;
                         tr = ws @ [Chdir d,
                                    Debug ''running ansible-playbook to do actual work'',
                                    Debug (''EXEC: '' @ cmd), Exec cmd]
                     in
                     if purge opts then
                       (case purge_checkout e w2 d of
                          (Some err, tr_p, w3) \<Rightarrow> (Inl err, tr @ tr_p, w3)
                        | (None, tr_p, w3) \<Rightarrow> (Inr (fst res), tr @ tr_p, w3))
                     else (Inr (fst res), tr, w2)))))"

text \<open>\<open>run\<close>: the exception or the exit code, the events in order, and the world left.\<close>

definition run ::
  "'w env \<Rightarrow> 'w \<Rightarrow> options \<Rightarrow> string option list \<Rightarrow> args_dict \<Rightarrow> (error + int) \<times> event list \<times> 'w" where
  "run e w opts args scm_args =
     (case checkout_phase e w opts scm_args of
        (Inl err, tr, w1) \<Rightarrow> (Inl err, tr, w1)
      | (Inr (rc, b_out, b_err), tr, w1) \<Rightarrow>
          (case checkout_gate opts rc b_out of
             (Some code, tr_g) \<Rightarrow> (Inr code, tr @ tr_g, w1)
           | (None, tr_g) \<Rightarrow>
               (let (r, tr_p, w2) = playbook_phase e w1 opts args in
                (r, tr @ tr_g @ tr_p, w2))))"

text \<open>The subprocesses a trace shows, in order.\<close>

fun executed :: "event list \<Rightarrow> string list" where
  "executed [] = []"
| "executed (Exec c # evs) = c # executed evs"
| "executed (_ # evs) = executed evs"

section \<open>A concrete host, for evaluating the functions\<close>

text \<open>
  The option defaults are those the \<open>add_option\<close> calls of \<open>parse\<close> give (and empty lists,
  \<open>None\<close> and \<open>False\<close> for the options of the base parser).
\<close>

definition default_options :: options where
  "default_options =
     \<lparr> purge = False, ifchanged = False, sleep = PyNone, force = False, dest = None,
       url = None, fullclone = False, checkout = None, accept_host_key = False,
       module_args = None, module_name_opt = DEFAULT_REPO_TYPE, verify = False,
       clean = False, tracksubs = False, check = False, diff = False, verbosity = 0,
       inventory = [], private_key_file = None, extra_vars = [],
       vault_password_files = [], vault_ids = [], ask_sudo_pass = False,
       ask_su_pass = False, become_ask_pass = False, skip_tags = [], tags = [],
       subset_opt = None \<rparr>"

text \<open>
  Modelled from the spec: \<open>parse_kv\<close>, whose source is not part of \<open>pull.py\<close>, on the
  "key=value pairs" of \<open>-a/--module-args\<close>: words separated by blanks, each split at its
  first \<open>=\<close>, with no quoting. It is used only where a theorem is evaluated on an example.
\<close>

fun words_from :: "string \<Rightarrow> string \<Rightarrow> string list" where
  "words_from cur [] = (if cur = [] then [] else [cur])"
| "words_from cur (c # cs) =
     (if c = CHR '' '' then (if cur = [] then words_from [] cs else cur # words_from [] cs)
      else words_from (cur @ [c]) cs)"

definition words :: "string \<Rightarrow> string list" where
  "words s = words_from [] s"

definition kv_pairs :: "string \<Rightarrow> args_dict" where
  "kv_pairs s =
     foldl (\<lambda>d w. if CHR ''='' \<in> set w
                   then AList.update (takeWhile (\<lambda>x. x \<noteq> CHR ''='') w)
                                     (tl (dropWhile (\<lambda>x. x \<noteq> CHR ''='') w)) d
                   else d)
           [] (words s)"

text \<open>
  The \<open>int\<close> of the example host, on ASCII text in base 10: the whitespace of the C locale
  is dropped at both ends, one sign may lead, then come decimal digits, with single
  underscores allowed between two digits (as Python 3.6 and later have it). \<open>None\<close> stands
  for the \<open>ValueError\<close> every other string raises. It is used only where a theorem is
  evaluated on an example, at the strings \<open>30\<close>, \<open>-5\<close>, \<open>soon\<close> and the empty one.
\<close>

definition is_space :: "char \<Rightarrow> bool" where
  "is_space c \<longleftrightarrow> c \<in> set [CHR '' '', CHR 0x09, CHR 0x0A, CHR 0x0B, CHR 0x0C, CHR 0x0D]"

definition strip :: "string \<Rightarrow> string" where
  "strip s = rev (dropWhile is_space (rev (dropWhile is_space s)))"

definition is_digit :: "char \<Rightarrow> bool" where
  "is_digit c \<longleftrightarrow> c \<in> set ''0123456789''"

definition digit_value :: "char \<Rightarrow> nat" where
  "digit_value c = of_char c - 48"

fun digits_value :: "nat \<Rightarrow> bool \<Rightarrow> string \<Rightarrow> nat option" where
  "digits_value acc after_digit [] = (if after_digit then Some acc else None)"
| "digits_value acc after_digit (c # cs) =
     (if is_digit c then digits_value (10 * acc + digit_value c) True cs
      else if c = CHR ''_'' \<and> after_digit then digits_value acc False cs
      else None)"

definition int_of_string :: "string \<Rightarrow> int option" where
  "int_of_string s =
     (case strip s of
        [] \<Rightarrow> None
      | c # cs \<Rightarrow>
          if c = CHR ''-'' then map_option (\<lambda>n. - int n) (digits_value 0 False cs)
          else if c = CHR ''+'' then map_option int (digits_value 0 False cs)
          else map_option int (digits_value 0 False (c # cs)))"

text \<open>
  A small world: the files and directories that exist (all of them readable) and the
  working directory. The checkout subprocess exits with \<open>rc1\<close> after printing \<open>out1\<close>, and
  leaves the checkout directory with a \<open>local.yml\<close> in it when it exits with 0; the
  playbook subprocess exits with \<open>rc2\<close>; \<open>shutil.rmtree\<close> raises \<open>rm_exn\<close> if that is not
  \<open>None\<close>, and removes the directory otherwise.
\<close>

record world =
  files :: "string list"
  dirs :: "string list"
  cwd :: string

definition example_env :: "int \<Rightarrow> string \<Rightarrow> int \<Rightarrow> string option \<Rightarrow> world env" where
  "example_env rc1 out1 rc2 rm_exn =
     \<lparr> socket_getfqdn = ''node1.example.com'',
       platform_node = ''node1'',
       sys_argv = [''/usr/bin/ansible-pull'', ''-U'', ''https://example.com/repo.git''],
       bin_path = ''/usr/bin'',
       now_text = ''2017-10-01 12:00:00'',
       expand = (\<lambda>p. if take 2 p = ''~/'' then ''/root/'' @ drop 2 p else p),
       random_source = 7,
       py_int = int_of_string,
       set_order = remdups,
       find_plugin = (\<lambda>m. if m \<in> set REPO_CHOICES then Some (''/usr/lib/ansible/'' @ m @ ''.py'')
                          else None),
       parse_kv = (\<lambda>s. Inr (kv_pairs s)),
       validate_conflicts = (\<lambda>opts. None),
       os_path_exists = (\<lambda>w p. p \<in> set (files w) \<or> p \<in> set (dirs w)),
       os_path_isdir = (\<lambda>w p. p \<in> set (dirs w)),
       os_access_r = (\<lambda>w p. p \<in> set (files w) \<or> p \<in> set (dirs w)),
       os_chdir = (\<lambda>p w. if p \<in> set (dirs w) then Inr (w\<lparr>cwd := p\<rparr>)
                         else Inl (''No such file or directory: '' @ p)),
       shutil_rmtree = (\<lambda>p w. case rm_exn of
                                  Some x \<Rightarrow> (Some x, w)
                                | None \<Rightarrow> (None, w\<lparr>files := filter (\<lambda>f. \<not> prefix (p @ ''/'') f) (files w),
                                                    dirs := filter (\<lambda>d. d \<noteq> p \<and> \<not> prefix (p @ ''/'') d) (dirs w)\<rparr>)),
       run_cmd = (\<lambda>cmd w. if prefix ''/usr/bin/ansible-playbook '' cmd
                           then ((rc2, [], []), w)
                           else ((rc1, out1, []),
                                 if rc1 = 0
                                 then w\<lparr>files := ''/root/.ansible/pull/node1.example.com/local.yml'' # files w,
                                        dirs := ''/root/.ansible/pull/node1.example.com'' # dirs w\<rparr>
                                 else w)),
       time_sleep = (\<lambda>n w. w) \<rparr>"

definition empty_world :: world where
  "empty_world = \<lparr> files = [], dirs = [''/''], cwd = ''/'' \<rparr>"

text \<open>The options of \<open>ansible-pull -U https://example.com/repo.git\<close>, and its checkout directory.\<close>

definition example_url :: string where
  "example_url = ''https://example.com/repo.git''"

definition example_options :: options where
  "example_options = default_options\<lparr>url := Some example_url\<rparr>"

definition example_dest :: string where
  "example_dest = ''/root/.ansible/pull/node1.example.com''"

text \<open>What \<open>parse\<close> makes of these options, and the world after a first checkout.\<close>

definition reconciled_options :: options where
  "reconciled_options = example_options\<lparr>dest := Some example_dest\<rparr>"

definition checked_out_world :: world where
  "checked_out_world =
     \<lparr> files = [''/root/.ansible/pull/node1.example.com/local.yml''],
       dirs = [''/root/.ansible/pull/node1.example.com'', ''/''],
       cwd = ''/'' \<rparr>"

section \<open>Facts about the built-ins\<close>

lemma int_of_string_Nil: "int_of_string [] = None"
  by (simp add: int_of_string_def strip_def)

lemma randint_in_range:
  assumes "0 \<le> n"
  shows "\<exists>k. randint r 0 n = Some k \<and> 0 \<le> k \<and> k \<le> n"
proof -
  from assms have "r mod nat (n + 1) < nat (n + 1)" by simp
  with assms have "int (r mod nat (n + 1)) \<le> n" by linarith
  with assms show ?thesis by (simp add: randint_def)
qed

lemma randint_empty_range: "n < 0 \<Longrightarrow> randint r 0 n = None"
  by (simp add: randint_def)

section \<open>Facts about \<open>parse\<close>\<close>

lemma resolve_sleep_not_int:
  "s \<noteq> [] \<Longrightarrow> int_of s = None \<Longrightarrow>
   resolve_sleep int_of r (PyStr s) = Inl (AnsibleOptionsError (s @ '' is not a number.''))"
  by (simp add: resolve_sleep_def not_a_number_msg_def)

lemma resolve_sleep_negative:
  "s \<noteq> [] \<Longrightarrow> int_of s = Some n \<Longrightarrow> n < 0 \<Longrightarrow>
   resolve_sleep int_of r (PyStr s) = Inl (AnsibleOptionsError (s @ '' is not a number.''))"
  by (simp add: resolve_sleep_def not_a_number_msg_def randint_empty_range)

lemma resolve_sleep_in_range:
  assumes "s \<noteq> []" and "int_of s = Some n" and "0 \<le> n"
  shows "\<exists>k. resolve_sleep int_of r (PyStr s) = Inr (PyInt k) \<and> 0 \<le> k \<and> k \<le> n"
proof -
  from randint_in_range [OF assms(3)] obtain k
    where "randint r 0 n = Some k" "0 \<le> k" "k \<le> n" by blast
  then show ?thesis using assms(1,2) by (simp add: resolve_sleep_def)
qed

lemma resolve_sleep_empty: "resolve_sleep int_of r (PyStr []) = Inr (PyStr [])"
  by (simp add: resolve_sleep_def)

lemma resolve_sleep_raises_options_error:
  "resolve_sleep int_of r v = Inl err \<Longrightarrow> err = AnsibleOptionsError (not_a_number_msg v)"
  by (auto simp add: resolve_sleep_def split: pyval.splits if_splits option.splits)

lemma parse_flags_raises_options_error:
  "parse_flags e w opts = Inl err \<Longrightarrow> \<exists>msg. err = AnsibleOptionsError msg"
  by (auto simp add: parse_flags_def Let_def split: if_splits sum.splits
      dest: resolve_sleep_raises_options_error)

lemma parse_flags_sleep_error:
  assumes "\<not> (os_path_exists e w (resolved_dest e opts) \<and> \<not> os_path_isdir e w (resolved_dest e opts))"
    and "resolve_sleep (py_int e) (random_source e) (sleep opts) = Inl err"
  shows "parse_flags e w opts = Inl err"
  using assms by (auto simp add: parse_flags_def Let_def)

lemma parse_flags_sleep_kept:
  assumes "\<not> (os_path_exists e w (resolved_dest e opts) \<and> \<not> os_path_isdir e w (resolved_dest e opts))"
    and "resolve_sleep (py_int e) (random_source e) (sleep opts) = Inr (sleep opts)"
    and "truthy (url opts)"
  shows "parse_flags e w opts = Inr (opts\<lparr>dest := Some (resolved_dest e opts)\<rparr>)"
  using assms by (cases opts) (simp add: parse_flags_def Let_def)

lemma parse_flags_Inr:
  assumes "parse_flags e w opts = Inr opts2"
  shows "resolve_sleep (py_int e) (random_source e) (sleep opts) = Inr (sleep opts2)"
    and "opts2 = opts\<lparr>dest := Some (resolved_dest e opts), sleep := sleep opts2\<rparr>"
    and "truthy (url opts)"
  using assms by (auto simp add: parse_flags_def Let_def split: if_splits sum.splits)

lemma parse_flags_Inl: "parse_flags e w opts = Inl err \<Longrightarrow> parse e w opts = Inl err"
  by (simp add: parse_def)

lemma parse_Inr_flags:
  "parse e w opts = Inr (opts', scm_args) \<Longrightarrow> parse_flags e w opts = Inr opts'"
  by (auto simp add: parse_def split: sum.splits if_splits option.splits)

lemma parse_Inr_module:
  "parse e w opts = Inr (opts', scm_args) \<Longrightarrow> module_name_opt opts' = ''git''"
  by (auto simp add: parse_def SUPPORTED_REPO_MODULES_def split: sum.splits if_splits option.splits)

lemma parse_dest_key:
  assumes "truthy (module_args opts)"
    and "parse_kv e (text_type (module_args opts)) = Inr scm_args"
    and "map_of scm_args ''dest'' \<noteq> None"
  shows "\<exists>msg. parse e w opts = Inl (AnsibleOptionsError msg)"
proof (cases "parse_flags e w opts")
  case (Inl err)
  then show ?thesis
    using parse_flags_raises_options_error [OF Inl] by (auto simp add: parse_def)
next
  case (Inr opts2)
  from parse_flags_Inr(2) [OF Inr] have "module_args opts2 = module_args opts"
    by (cases opts2, cases opts) auto
  with Inr assms show ?thesis by (auto simp add: parse_def)
qed

section \<open>Option reconciliation: module name, reserved keys, sleep\<close>

text \<open>
  C1. The claim: option reconciliation accepts every module name of the enumeration git,
  subversion, hg, bzr, and rejects every other name with a configuration error that lists
  the supported set. The code tests the name against \<open>SUPPORTED_REPO_MODULES\<close>, which holds
  \<open>git\<close> alone, although the help text of \<open>--module-name\<close> offers \<open>REPO_CHOICES\<close> and the
  later branches of \<open>parse\<close> and \<open>run\<close> treat all four names. So each of subversion, hg
  and bzr, with a URL given and nothing else, is rejected by \<open>parse\<close>, with a message that
  lists \<open>git\<close> only.
\<close>

theorem parse_rejects_listed_modules:
  "''subversion'' \<in> set REPO_CHOICES \<and> ''hg'' \<in> set REPO_CHOICES \<and> ''bzr'' \<in> set REPO_CHOICES
   \<and> parse (example_env 0 [] 0 None) empty_world
        (example_options\<lparr>module_name_opt := ''subversion''\<rparr>)
      = Inl (AnsibleOptionsError ''Unsupported repo module subversion, choices are git'')
   \<and> parse (example_env 0 [] 0 None) empty_world
        (example_options\<lparr>module_name_opt := ''hg''\<rparr>)
      = Inl (AnsibleOptionsError ''Unsupported repo module hg, choices are git'')
   \<and> parse (example_env 0 [] 0 None) empty_world
        (example_options\<lparr>module_name_opt := ''bzr''\<rparr>)
      = Inl (AnsibleOptionsError ''Unsupported repo module bzr, choices are git'')"
  by (simp add: parse_def parse_flags_def resolved_dest_def resolve_sleep_def path_join_def
      example_env_def empty_world_def example_options_def example_url_def default_options_def
      REPO_CHOICES_def
      SUPPORTED_REPO_MODULES_def unsupported_repo_module_msg_def)

text \<open>
  C5. Reserved keys of the generic argument map, read by \<open>parse_kv\<close> from \<open>--module-args\<close>.
  A \<open>dest\<close> entry, whatever its value, makes \<open>parse\<close> raise a configuration error. When
  the earlier checks pass (\<open>parse_flags\<close> returns) and the module is git, that error is
  the \<open>dest\<close> message; without a \<open>dest\<close> entry, an entry \<open>name=y\<close> raises the \<open>name\<close>
  message when \<open>y\<close> differs from the URL, and when \<open>y\<close> is the URL \<open>parse\<close> returns the
  options and the map (provided the base class finds no conflict). The two messages differ.
\<close>

theorem reserved_key_conflicts:
  assumes "truthy (module_args opts)"
    and "parse_kv e (text_type (module_args opts)) = Inr scm_args"
  shows "(map_of scm_args ''dest'' \<noteq> None
            \<longrightarrow> (\<exists>msg. parse e w opts = Inl (AnsibleOptionsError msg)))
       \<and> (parse_flags e w opts = Inr opts2 \<and> module_name_opt opts = ''git''
            \<and> map_of scm_args ''dest'' \<noteq> None
            \<longrightarrow> parse e w opts = Inl (AnsibleOptionsError dest_arg_msg))
       \<and> (parse_flags e w opts = Inr opts2 \<and> module_name_opt opts = ''git''
            \<and> map_of scm_args ''dest'' = None \<and> map_of scm_args ''name'' = Some y
            \<and> url opts = Some u \<and> y \<noteq> u
            \<longrightarrow> parse e w opts = Inl (AnsibleOptionsError name_arg_msg))
       \<and> (parse_flags e w opts = Inr opts2 \<and> module_name_opt opts = ''git''
            \<and> map_of scm_args ''dest'' = None \<and> map_of scm_args ''name'' = Some y
            \<and> url opts = Some u \<and> y = u \<and> validate_conflicts e opts2 = None
            \<longrightarrow> parse e w opts = Inr (opts2, scm_args))
       \<and> dest_arg_msg \<noteq> name_arg_msg"
proof -
  have always: "map_of scm_args ''dest'' \<noteq> None
      \<longrightarrow> (\<exists>msg. parse e w opts = Inl (AnsibleOptionsError msg))"
    using parse_dest_key [OF assms] by blast
  have same: "module_args opts2 = module_args opts \<and> module_name_opt opts2 = module_name_opt opts
      \<and> url opts2 = url opts" if "parse_flags e w opts = Inr opts2"
    using parse_flags_Inr(2) [OF that] by (cases opts2, cases opts) auto
  have dest_case: "parse_flags e w opts = Inr opts2 \<and> module_name_opt opts = ''git''
      \<and> map_of scm_args ''dest'' \<noteq> None
      \<longrightarrow> parse e w opts = Inl (AnsibleOptionsError dest_arg_msg)"
    using assms same by (auto simp add: parse_def SUPPORTED_REPO_MODULES_def)
  have differs: "parse_flags e w opts = Inr opts2 \<and> module_name_opt opts = ''git''
      \<and> map_of scm_args ''dest'' = None \<and> map_of scm_args ''name'' = Some y
      \<and> url opts = Some u \<and> y \<noteq> u
      \<longrightarrow> parse e w opts = Inl (AnsibleOptionsError name_arg_msg)"
    using assms same by (auto simp add: parse_def SUPPORTED_REPO_MODULES_def)
  have equal: "parse_flags e w opts = Inr opts2 \<and> module_name_opt opts = ''git''
      \<and> map_of scm_args ''dest'' = None \<and> map_of scm_args ''name'' = Some y
      \<and> url opts = Some u \<and> y = u \<and> validate_conflicts e opts2 = None
      \<longrightarrow> parse e w opts = Inr (opts2, scm_args)"
    using assms same by (auto simp add: parse_def SUPPORTED_REPO_MODULES_def)
  have msgs: "dest_arg_msg \<noteq> name_arg_msg"
    by (simp add: dest_arg_msg_def name_arg_msg_def)
  from always dest_case differs equal msgs show ?thesis by blast
qed

theorem reserved_key_conflicts_witness:
  "parse (example_env 0 [] 0 None) empty_world
     (example_options\<lparr>module_args := Some ''dest=/tmp/checkout''\<rparr>)
     = Inl (AnsibleOptionsError dest_arg_msg)
   \<and> parse (example_env 0 [] 0 None) empty_world
       (example_options\<lparr>module_args := Some ''name=https://example.com/other.git''\<rparr>)
     = Inl (AnsibleOptionsError name_arg_msg)
   \<and> parse (example_env 0 [] 0 None) empty_world
       (example_options\<lparr>module_args := Some ''name=https://example.com/repo.git''\<rparr>)
     = Inr (example_options\<lparr>module_args := Some ''name=https://example.com/repo.git'',
                             dest := Some example_dest\<rparr>,
            [(''name'', ''https://example.com/repo.git'')])"
proof -
  let ?e = "example_env 0 [] 0 None"
  let ?a = "example_options\<lparr>module_args := Some ''dest=/tmp/checkout''\<rparr>"
  let ?b = "example_options\<lparr>module_args := Some ''name=https://example.com/other.git''\<rparr>"
  let ?c = "example_options\<lparr>module_args := Some ''name=https://example.com/repo.git''\<rparr>"
  have ta: "truthy (module_args ?a)" and tb: "truthy (module_args ?b)"
    and tc: "truthy (module_args ?c)"
    by (simp_all add: example_options_def)
  have ka: "parse_kv ?e (text_type (module_args ?a)) = Inr [(''dest'', ''/tmp/checkout'')]"
    by code_simp
  have kb: "parse_kv ?e (text_type (module_args ?b))
      = Inr [(''name'', ''https://example.com/other.git'')]"
    by code_simp
  have kc: "parse_kv ?e (text_type (module_args ?c))
      = Inr [(''name'', ''https://example.com/repo.git'')]"
    by code_simp
  have fa: "parse_flags ?e empty_world ?a = Inr (?a\<lparr>dest := Some example_dest\<rparr>)"
    by code_simp
  have fb: "parse_flags ?e empty_world ?b = Inr (?b\<lparr>dest := Some example_dest\<rparr>)"
    by code_simp
  have fc: "parse_flags ?e empty_world ?c = Inr (?c\<lparr>dest := Some example_dest\<rparr>)"
    by code_simp
  have git: "module_name_opt ?a = ''git''" "module_name_opt ?b = ''git''"
    "module_name_opt ?c = ''git''"
    by (simp_all add: example_options_def default_options_def DEFAULT_REPO_TYPE_def)
  have u: "url ?b = Some example_url" "url ?c = Some example_url"
    by (simp_all add: example_options_def)
  have vc: "validate_conflicts ?e (?c\<lparr>dest := Some example_dest\<rparr>) = None"
    by (simp add: example_env_def)
  have a: "parse ?e empty_world ?a = Inl (AnsibleOptionsError dest_arg_msg)"
    using reserved_key_conflicts [OF ta ka, where w = empty_world
        and ?opts2.0 = "?a\<lparr>dest := Some example_dest\<rparr>"]
      fa git(1)
    by simp
  have b: "parse ?e empty_world ?b = Inl (AnsibleOptionsError name_arg_msg)"
    using reserved_key_conflicts [OF tb kb, where w = empty_world
        and ?opts2.0 = "?b\<lparr>dest := Some example_dest\<rparr>"
        and y = "''https://example.com/other.git''" and u = example_url]
      fb git(2) u(1)
    by (simp add: example_url_def)
  have c: "parse ?e empty_world ?c
      = Inr (?c\<lparr>dest := Some example_dest\<rparr>, [(''name'', ''https://example.com/repo.git'')])"
    using reserved_key_conflicts [OF tc kc, where w = empty_world
        and ?opts2.0 = "?c\<lparr>dest := Some example_dest\<rparr>"
        and y = "''https://example.com/repo.git''" and u = example_url]
      fc git(3) u(2) vc
    by (simp add: example_url_def)
  from a b c show ?thesis by simp
qed

text \<open>
  C7, as the code has it. The claim: every supplied sleep value that is not an integer
  makes reconciliation fail, and a supplied integer \<open>N \<ge> 0\<close> resolves to an integer of
  \<open>[0, N]\<close>. The guard \<open>if self.options.sleep\<close> skips the empty string, which \<open>int\<close> does
  not read: with \<open>--sleep ''\<close> reconciliation succeeds and leaves the option as it is.
\<close>

theorem empty_sleep_is_accepted:
  "py_int (example_env 0 [] 0 None) [] = None
   \<and> parse (example_env 0 [] 0 None) empty_world (example_options\<lparr>sleep := PyStr []\<rparr>)
     = Inr (example_options\<lparr>sleep := PyStr [], dest := Some example_dest\<rparr>, [])"
  by (simp add: int_of_string_Nil parse_def parse_flags_def resolved_dest_def resolve_sleep_def
      path_join_def example_env_def empty_world_def example_options_def default_options_def
      example_url_def example_dest_def SUPPORTED_REPO_MODULES_def DEFAULT_REPO_TYPE_def)

text \<open>
  C7, amended, for whatever \<open>int\<close> reads (\<open>py_int e\<close>). A supplied sleep value that is not
  empty and that \<open>int\<close> rejects makes \<open>parse\<close> raise a configuration error, which is
  "\<open>s\<close> is not a number." when the checkout directory passed its check. An empty value
  raises nothing: the sleep step returns it as it is, lines 141 to 158 return the options
  with nothing but the checkout directory set when that directory passed its check and a
  URL is given, and the options \<open>parse\<close> returns still hold it. For a value, not empty, that
  \<open>int\<close> reads as an integer \<open>n \<ge> 0\<close> the sleep step returns an integer of \<open>[0, n]\<close>, and
  that is the sleep option of the options \<open>parse\<close> returns. (No \<open>int\<close> reads the empty
  string, so \<open>s \<noteq> []\<close> leaves out no integer.)
\<close>

theorem sleep_resolution:
  assumes "sleep opts = PyStr s"
  shows "(s \<noteq> [] \<and> py_int e s = None
            \<longrightarrow> (\<exists>msg. parse e w opts = Inl (AnsibleOptionsError msg)))
       \<and> (s \<noteq> [] \<and> py_int e s = None
            \<and> \<not> (os_path_exists e w (resolved_dest e opts)
                  \<and> \<not> os_path_isdir e w (resolved_dest e opts))
            \<longrightarrow> parse e w opts = Inl (AnsibleOptionsError (s @ '' is not a number.'')))
       \<and> (s = [] \<longrightarrow> resolve_sleep (py_int e) (random_source e) (PyStr s) = Inr (PyStr []))
       \<and> (s = [] \<and> truthy (url opts)
            \<and> \<not> (os_path_exists e w (resolved_dest e opts)
                  \<and> \<not> os_path_isdir e w (resolved_dest e opts))
            \<longrightarrow> parse_flags e w opts = Inr (opts\<lparr>dest := Some (resolved_dest e opts)\<rparr>))
       \<and> (s = [] \<and> parse e w opts = Inr (opts', scm_args) \<longrightarrow> sleep opts' = PyStr [])
       \<and> (s \<noteq> [] \<and> py_int e s = Some n \<and> 0 \<le> n
            \<longrightarrow> (\<exists>k. resolve_sleep (py_int e) (random_source e) (PyStr s) = Inr (PyInt k)
                      \<and> 0 \<le> k \<and> k \<le> n))
       \<and> (s \<noteq> [] \<and> py_int e s = Some n \<and> 0 \<le> n \<and> parse e w opts = Inr (opts', scm_args)
            \<longrightarrow> (\<exists>k. sleep opts' = PyInt k \<and> 0 \<le> k \<and> k \<le> n))"
proof -
  have bad: "parse e w opts = Inl (AnsibleOptionsError (s @ '' is not a number.''))"
    if "s \<noteq> []" "py_int e s = None"
      "\<not> (os_path_exists e w (resolved_dest e opts) \<and> \<not> os_path_isdir e w (resolved_dest e opts))"
    using parse_flags_sleep_error [OF that(3)] resolve_sleep_not_int [where int_of = "py_int e", OF that(1,2)] assms
    by (simp add: parse_flags_Inl)
  have fails: "\<exists>msg. parse e w opts = Inl (AnsibleOptionsError msg)"
    if "s \<noteq> []" "py_int e s = None"
  proof (cases "os_path_exists e w (resolved_dest e opts) \<and> \<not> os_path_isdir e w (resolved_dest e opts)")
    case True
    then show ?thesis by (simp add: parse_def parse_flags_def Let_def)
  next
    case False
    from bad [OF that False] show ?thesis by blast
  qed
  have skipped: "resolve_sleep (py_int e) (random_source e) (PyStr s) = Inr (PyStr [])"
    if "s = []"
    using that by (simp add: resolve_sleep_empty)
  have passes: "parse_flags e w opts = Inr (opts\<lparr>dest := Some (resolved_dest e opts)\<rparr>)"
    if "s = []" "truthy (url opts)"
      "\<not> (os_path_exists e w (resolved_dest e opts) \<and> \<not> os_path_isdir e w (resolved_dest e opts))"
  proof -
    from assms that(1)
    have "resolve_sleep (py_int e) (random_source e) (sleep opts) = Inr (sleep opts)"
      by (simp add: resolve_sleep_empty)
    from parse_flags_sleep_kept [OF that(3) this that(2)] show ?thesis .
  qed
  have empty: "sleep opts' = PyStr []" if "s = []" "parse e w opts = Inr (opts', scm_args)"
    using parse_flags_Inr(1) [OF parse_Inr_flags [OF that(2)]] assms that(1)
    by (simp add: resolve_sleep_def)
  have range: "\<exists>k. resolve_sleep (py_int e) (random_source e) (PyStr s) = Inr (PyInt k)
      \<and> 0 \<le> k \<and> k \<le> n"
    if "s \<noteq> []" "py_int e s = Some n" "0 \<le> n"
    using resolve_sleep_in_range [where int_of = "py_int e", OF that] .
  have resolved: "\<exists>k. sleep opts' = PyInt k \<and> 0 \<le> k \<and> k \<le> n"
    if "s \<noteq> []" "py_int e s = Some n" "0 \<le> n" "parse e w opts = Inr (opts', scm_args)"
    using parse_flags_Inr(1) [OF parse_Inr_flags [OF that(4)]] assms range [OF that(1,2,3)]
    by auto
  from bad fails skipped passes empty range resolved show ?thesis by blast
qed

theorem sleep_resolution_witness:
  "parse (example_env 0 [] 0 None) empty_world (example_options\<lparr>sleep := PyStr ''soon''\<rparr>)
     = Inl (AnsibleOptionsError ''soon is not a number.'')
   \<and> parse (example_env 0 [] 0 None) empty_world (example_options\<lparr>sleep := PyStr ''30''\<rparr>)
     = Inr (example_options\<lparr>sleep := PyInt 7, dest := Some example_dest\<rparr>, [])
   \<and> py_int (example_env 0 [] 0 None) ''soon'' = None
   \<and> py_int (example_env 0 [] 0 None) ''30'' = Some 30
   \<and> (0::int) \<le> 7 \<and> (7::int) \<le> 30
   \<and> resolve_sleep int_of_string 7 (PyStr ''30'') = Inr (PyInt 7)
   \<and> resolve_sleep int_of_string 7 (PyStr []) = Inr (PyStr [])
   \<and> parse_flags (example_env 0 [] 0 None) empty_world (example_options\<lparr>sleep := PyStr []\<rparr>)
     = Inr (example_options\<lparr>sleep := PyStr [], dest := Some example_dest\<rparr>)
   \<and> sleep (example_options\<lparr>sleep := PyStr [], dest := Some example_dest\<rparr>) = PyStr []"
proof -
  let ?e = "example_env 0 [] 0 None"
  let ?a = "example_options\<lparr>sleep := PyStr ''soon''\<rparr>"
  let ?b = "example_options\<lparr>sleep := PyStr ''30''\<rparr>"
  let ?c = "example_options\<lparr>sleep := PyStr []\<rparr>"
  have sa: "sleep ?a = PyStr ''soon''" and sb: "sleep ?b = PyStr ''30''"
    and sc: "sleep ?c = PyStr []"
    by simp_all
  have r7: "random_source ?e = 7" and pi: "py_int ?e = int_of_string"
    by (simp_all add: example_env_def)
  have ia: "py_int ?e ''soon'' = None" and ib: "py_int ?e ''30'' = Some 30"
    by code_simp+
  have na: "''soon'' \<noteq> []" and nb: "''30'' \<noteq> []" by simp_all
  have da: "\<not> (os_path_exists ?e empty_world (resolved_dest ?e ?a)
        \<and> \<not> os_path_isdir ?e empty_world (resolved_dest ?e ?a))"
    by code_simp
  have dc: "\<not> (os_path_exists ?e empty_world (resolved_dest ?e ?c)
        \<and> \<not> os_path_isdir ?e empty_world (resolved_dest ?e ?c))"
    by code_simp
  have uc: "truthy (url ?c)" by code_simp
  have rc: "resolved_dest ?e ?c = example_dest" by code_simp
  have pb: "parse ?e empty_world ?b
      = Inr (example_options\<lparr>sleep := PyInt 7, dest := Some example_dest\<rparr>, [])"
    by code_simp
  have pc: "parse ?e empty_world ?c
      = Inr (example_options\<lparr>sleep := PyStr [], dest := Some example_dest\<rparr>, [])"
    by code_simp
  have a: "parse ?e empty_world ?a = Inl (AnsibleOptionsError ''soon is not a number.'')"
    using sleep_resolution [OF sa, where e = ?e and w = empty_world] ia da by simp
  have "\<exists>k. sleep (example_options\<lparr>sleep := PyInt 7, dest := Some example_dest\<rparr>) = PyInt k
      \<and> 0 \<le> k \<and> k \<le> 30"
    using sleep_resolution [OF sb, where n = 30 and e = ?e and w = empty_world
        and opts' = "example_options\<lparr>sleep := PyInt 7, dest := Some example_dest\<rparr>"
        and scm_args = "[]"] ib pb
    by simp
  then have b: "(0::int) \<le> 7 \<and> (7::int) \<le> 30" by simp
  have "\<exists>k. resolve_sleep (py_int ?e) (random_source ?e) (PyStr ''30'') = Inr (PyInt k)
      \<and> 0 \<le> k \<and> k \<le> 30"
    using sleep_resolution [OF sb, where n = 30 and e = ?e and w = empty_world] ib by simp
  moreover have "resolve_sleep int_of_string 7 (PyStr ''30'') = Inr (PyInt 7)" by code_simp
  ultimately have d: "resolve_sleep int_of_string 7 (PyStr ''30'') = Inr (PyInt 7)" by simp
  have "resolve_sleep (py_int ?e) (random_source ?e) (PyStr []) = Inr (PyStr [])"
    using sleep_resolution [OF sc, where e = ?e and w = empty_world] by simp
  then have f: "resolve_sleep int_of_string 7 (PyStr []) = Inr (PyStr [])"
    by (simp only: r7 pi)
  have "parse_flags ?e empty_world ?c = Inr (?c\<lparr>dest := Some (resolved_dest ?e ?c)\<rparr>)"
    using sleep_resolution [OF sc, where e = ?e and w = empty_world] uc dc by simp
  then have g: "parse_flags ?e empty_world ?c
      = Inr (example_options\<lparr>sleep := PyStr [], dest := Some example_dest\<rparr>)"
    by (simp only: rc)
  have c: "sleep (example_options\<lparr>sleep := PyStr [], dest := Some example_dest\<rparr>) = PyStr []"
    using sleep_resolution [OF sc, where e = ?e and w = empty_world
        and opts' = "example_options\<lparr>sleep := PyStr [], dest := Some example_dest\<rparr>"
        and scm_args = "[]"] pc
    by simp
  from a pb ia ib b c d f g show ?thesis by simp
qed

text \<open>
  C10, for whatever \<open>int\<close> reads (\<open>py_int e\<close>). A supplied sleep value that reads as a
  negative integer makes the sleep step raise the configuration error
  "\<open>s\<close> is not a number.", so \<open>parse\<close> raises a configuration error, and that very one when
  the checkout directory passed its check. It is the error of a value that is no integer:
  \<open>random.randint(0, n)\<close> raises the \<open>ValueError\<close> that \<open>int\<close> raises there, and one
  \<open>except\<close> clause handles both. (A supplied value is one the guard \<open>if self.options.sleep\<close>
  lets through, \<open>s \<noteq> []\<close>; no \<open>int\<close> reads the empty string, so this leaves out no
  negative integer.)
\<close>

theorem negative_sleep_is_not_a_number:
  assumes "sleep opts = PyStr s" and "s \<noteq> []" and "py_int e s = Some n" and "n < 0"
  shows "resolve_sleep (py_int e) (random_source e) (PyStr s)
           = Inl (AnsibleOptionsError (s @ '' is not a number.''))
       \<and> (\<exists>msg. parse e w opts = Inl (AnsibleOptionsError msg))
       \<and> (\<not> (os_path_exists e w (resolved_dest e opts)
              \<and> \<not> os_path_isdir e w (resolved_dest e opts))
            \<longrightarrow> parse e w opts = Inl (AnsibleOptionsError (s @ '' is not a number.'')))
       \<and> (s' \<noteq> [] \<and> py_int e s' = None
            \<longrightarrow> resolve_sleep (py_int e) (random_source e) (PyStr s')
                  = Inl (AnsibleOptionsError (s' @ '' is not a number.'')))"
proof -
  have step: "resolve_sleep (py_int e) (random_source e) (PyStr s)
      = Inl (AnsibleOptionsError (s @ '' is not a number.''))"
    using resolve_sleep_negative [where int_of = "py_int e", OF assms(2,3,4)] .
  have reached: "parse e w opts = Inl (AnsibleOptionsError (s @ '' is not a number.''))"
    if "\<not> (os_path_exists e w (resolved_dest e opts) \<and> \<not> os_path_isdir e w (resolved_dest e opts))"
    using parse_flags_sleep_error [OF that] step assms(1) by (simp add: parse_flags_Inl)
  have fails: "\<exists>msg. parse e w opts = Inl (AnsibleOptionsError msg)"
  proof (cases "os_path_exists e w (resolved_dest e opts) \<and> \<not> os_path_isdir e w (resolved_dest e opts)")
    case True
    then show ?thesis by (simp add: parse_def parse_flags_def Let_def)
  next
    case False
    from reached [OF False] show ?thesis by blast
  qed
  have other: "resolve_sleep (py_int e) (random_source e) (PyStr s')
      = Inl (AnsibleOptionsError (s' @ '' is not a number.''))"
    if "s' \<noteq> []" "py_int e s' = None"
    using resolve_sleep_not_int [where int_of = "py_int e", OF that] .
  from step reached fails other show ?thesis by blast
qed

theorem negative_sleep_is_not_a_number_witness:
  "py_int (example_env 0 [] 0 None) ''-5'' = Some (- 5) \<and> (- 5 :: int) < 0
   \<and> py_int (example_env 0 [] 0 None) ''soon'' = None
   \<and> parse (example_env 0 [] 0 None) empty_world (example_options\<lparr>sleep := PyStr ''-5''\<rparr>)
     = Inl (AnsibleOptionsError ''-5 is not a number.'')
   \<and> resolve_sleep int_of_string 7 (PyStr ''-5'')
     = Inl (AnsibleOptionsError ''-5 is not a number.'')
   \<and> resolve_sleep int_of_string 7 (PyStr ''soon'')
     = Inl (AnsibleOptionsError ''soon is not a number.'')"
proof -
  let ?e = "example_env 0 [] 0 None"
  let ?a = "example_options\<lparr>sleep := PyStr ''-5''\<rparr>"
  have s: "sleep ?a = PyStr ''-5''" by simp
  have ne: "''-5'' \<noteq> []" by simp
  have i: "py_int ?e ''-5'' = Some (- 5)" by code_simp
  have n: "(- 5 :: int) < 0" by simp
  have d: "\<not> (os_path_exists ?e empty_world (resolved_dest ?e ?a)
        \<and> \<not> os_path_isdir ?e empty_world (resolved_dest ?e ?a))"
    by code_simp
  have j: "py_int ?e ''soon'' = None" by code_simp
  have r7: "random_source ?e = 7" and pi: "py_int ?e = int_of_string"
    by (simp_all add: example_env_def)
  note neg = negative_sleep_is_not_a_number [OF s ne i n, where w = empty_world
      and s' = "''soon''"]
  from neg d have p: "parse ?e empty_world ?a = Inl (AnsibleOptionsError ''-5 is not a number.'')"
    by simp
  from neg have "resolve_sleep (py_int ?e) (random_source ?e) (PyStr ''-5'')
      = Inl (AnsibleOptionsError ''-5 is not a number.'')"
    by simp
  then have q: "resolve_sleep int_of_string 7 (PyStr ''-5'')
      = Inl (AnsibleOptionsError ''-5 is not a number.'')"
    by (simp only: r7 pi)
  from neg j have "resolve_sleep (py_int ?e) (random_source ?e) (PyStr ''soon'')
      = Inl (AnsibleOptionsError ''soon is not a number.'')"
    by simp
  then have r: "resolve_sleep int_of_string 7 (PyStr ''soon'')
      = Inl (AnsibleOptionsError ''soon is not a number.'')"
    by (simp only: r7 pi)
  from i n j p q r show ?thesis by simp
qed


section \<open>Facts about playbook selection\<close>

lemma try_playbook_accepts:
  "try_playbook e w pb = 0 \<longleftrightarrow> os_path_exists e w pb \<and> os_access_r e w pb"
  by (simp add: try_playbook_def)

lemma try_candidates_find:
  "try_candidates e w errors pbs =
     (case find (\<lambda>pb. try_playbook e w pb = 0) pbs of
        Some pb \<Rightarrow>
          (Some pb,
           errors @ map (\<lambda>pb. pb @ '': '' @ PLAYBOOK_ERRORS (try_playbook e w pb))
                      (takeWhile (\<lambda>pb. try_playbook e w pb \<noteq> 0) pbs))
      | None \<Rightarrow>
          (None, errors @ map (\<lambda>pb. pb @ '': '' @ PLAYBOOK_ERRORS (try_playbook e w pb)) pbs))"
proof (induction pbs arbitrary: errors)
  case Nil
  then show ?case by simp
next
  case (Cons pb pbs)
  show ?case
  proof (cases "try_playbook e w pb = 0")
    case True
    then show ?thesis by simp
  next
    case False
    then show ?thesis
      by (simp add: Cons.IH Let_def split: option.splits)
  qed
qed

section \<open>Facts about the SCM options\<close>

lemma map_of_set_arg:
  "map_of (fst (set_arg k v st)) k' = (if k' = k then Some v else map_of (fst st) k')"
  by (simp add: set_arg_def update_conv')

lemma map_of_override_arg:
  "map_of (fst (override_arg k v flag st)) k' = (if k' = k then Some v else map_of (fst st) k')"
  by (simp add: override_arg_def update_conv')

lemma snd_set_arg: "snd (set_arg k v st) = snd st"
  by (simp add: set_arg_def)

lemma snd_override_arg:
  "snd (override_arg k v flag st) =
     snd st @ (if map_of (fst st) k \<noteq> None then [Warning (overridden_msg k flag)] else [])"
  by (simp add: override_arg_def)

lemma map_of_when_flag:
  "map_of (fst (when_flag c f st)) k =
     (if c then map_of (fst (f st)) k else map_of (fst st) k)"
  by (simp add: when_flag_def)

lemma snd_when_flag: "snd (when_flag c f st) = (if c then snd (f st) else snd st)"
  by (simp add: when_flag_def)

lemma map_of_shallow_default:
  "map_of (fst (shallow_default k v full st)) k' =
     (if k' = k
      then (if \<not> full \<and> map_of (fst st) k = None then Some v
            else if full then None else map_of (fst st) k)
      else map_of (fst st) k')"
  by (auto simp add: shallow_default_def set_arg_def update_conv' delete_conv')

lemma snd_shallow_default:
  "snd (shallow_default k v full st) =
     snd st @ (if full \<and> map_of (fst st) k \<noteq> None then [Warning (removed_msg k)] else [])"
  by (simp add: shallow_default_def set_arg_def)

section \<open>Facts about the traces of \<open>run\<close>\<close>

lemma executed_append: "executed (xs @ ys) = executed xs @ executed ys"
  by (induction xs rule: executed.induct) simp_all

lemma executed_set_arg: "executed (snd (set_arg k v st)) = executed (snd st)"
  by (simp add: set_arg_def)

lemma executed_override_arg: "executed (snd (override_arg k v flag st)) = executed (snd st)"
  by (simp add: override_arg_def executed_append)

lemma executed_when_flag:
  "(\<And>s. executed (snd (f s)) = executed (snd s)) \<Longrightarrow>
   executed (snd (when_flag c f st)) = executed (snd st)"
  by (simp add: when_flag_def)

lemma executed_shallow_default: "executed (snd (shallow_default k v full st)) = executed (snd st)"
  by (simp add: shallow_default_def executed_set_arg executed_append)

lemma executed_scm_options: "executed (snd (scm_options opts scm_args)) = []"
  by (simp add: scm_options_def Let_def executed_when_flag executed_shallow_default
      executed_set_arg executed_override_arg)

lemma executed_nap: "executed (fst (snd (nap e w v))) = []"
  by (simp add: nap_def split: pyval.splits)

lemma executed_select_playbook: "executed (snd (select_playbook e w args path)) = []"
  by (simp add: select_playbook_def Let_def split: option.splits list.splits prod.splits)

lemma executed_purge_checkout: "executed (fst (snd (purge_checkout e w d))) = []"
  by (simp add: purge_checkout_def split: sum.splits prod.splits option.splits)

lemma nap_raises: "nap e w v = (Some err, tr, w1) \<Longrightarrow> \<exists>x. err = Exception x"
  by (cases v) (auto simp add: nap_def split: if_splits)

text \<open>The four ways through \<open>checkout_phase\<close>.\<close>

lemma checkout_phase_unsupported:
  "module_name_opt opts \<notin> set REPO_CHOICES \<Longrightarrow>
   checkout_phase e w opts scm_args
     = (Inl (AnsibleOptionsError (unsupported_scm_msg (module_name_opt opts))),
        log_command_line e, w)"
  by (simp add: checkout_phase_def Let_def)

lemma checkout_phase_no_plugin:
  "module_name_opt opts \<in> set REPO_CHOICES \<Longrightarrow> find_plugin e (module_name_opt opts) = None \<Longrightarrow>
   checkout_phase e w opts scm_args
     = (Inl (AnsibleOptionsError (module_not_found_msg (module_name_opt opts))),
        log_command_line e @ snd (scm_options opts scm_args), w)"
  by (simp add: checkout_phase_def Let_def split_beta)

lemma checkout_phase_nap_raises:
  "module_name_opt opts \<in> set REPO_CHOICES \<Longrightarrow> find_plugin e (module_name_opt opts) = Some p \<Longrightarrow>
   nap e w (sleep opts) = (Some err, tr_nap, w1) \<Longrightarrow>
   checkout_phase e w opts scm_args
     = (Inl err, (log_command_line e @ snd (scm_options opts scm_args)) @ tr_nap, w1)"
  by (simp add: checkout_phase_def Let_def split_beta)

lemma checkout_phase_runs:
  "module_name_opt opts \<in> set REPO_CHOICES \<Longrightarrow> find_plugin e (module_name_opt opts) = Some p \<Longrightarrow>
   nap e w (sleep opts) = (None, tr_nap, w1) \<Longrightarrow>
   cmd = checkout_cmd e (checkout_inv_opts e w opts) opts (fst (scm_options opts scm_args)) \<Longrightarrow>
   checkout_phase e w opts scm_args
     = (Inr (fst (run_cmd e cmd w1)),
        (log_command_line e @ snd (scm_options opts scm_args)) @ tr_nap
        @ [Debug ''running ansible with VCS module to checkout repo'',
           Vvvv (''EXEC: '' @ cmd), Exec cmd],
        snd (run_cmd e cmd w1))"
  by (simp add: checkout_phase_def Let_def split_beta)

lemma checkout_phase_executed:
  assumes "fst (checkout_phase e w opts scm_args) = Inr res"
  shows "executed (fst (snd (checkout_phase e w opts scm_args)))
       = [checkout_cmd e (checkout_inv_opts e w opts) opts (fst (scm_options opts scm_args))]"
proof -
  obtain nerr tr_nap w1 where n: "nap e w (sleep opts) = (nerr, tr_nap, w1)"
    by (cases "nap e w (sleep opts)") auto
  from executed_nap [of e w "sleep opts"] n have tr_nap: "executed tr_nap = []" by simp
  have m: "module_name_opt opts \<in> set REPO_CHOICES"
  proof (rule ccontr)
    assume "module_name_opt opts \<notin> set REPO_CHOICES"
    from checkout_phase_unsupported [OF this, of e w scm_args] assms show False by simp
  qed
  obtain p where p: "find_plugin e (module_name_opt opts) = Some p"
  proof (cases "find_plugin e (module_name_opt opts)")
    case None
    from checkout_phase_no_plugin [OF m None] assms show ?thesis by simp
  next
    case (Some p)
    then show ?thesis by (rule that)
  qed
  have ne: "nerr = None"
  proof (cases nerr)
    case None
    then show ?thesis .
  next
    case (Some x)
    with checkout_phase_nap_raises [OF m p] n assms show ?thesis by simp
  qed
  from checkout_phase_runs [OF m p n [unfolded ne] refl] tr_nap show ?thesis
    by (simp add: executed_append executed_scm_options log_command_line_def)
qed

lemma checkout_phase_raises:
  assumes "fst (checkout_phase e w opts scm_args) = Inl err"
    and m: "module_name_opt opts \<in> set REPO_CHOICES"
  shows "err = AnsibleOptionsError (module_not_found_msg (module_name_opt opts))
       \<or> (\<exists>x. err = Exception x)"
proof (cases "find_plugin e (module_name_opt opts)")
  case None
  from checkout_phase_no_plugin [OF m None] assms(1) show ?thesis by simp
next
  case (Some p)
  obtain nerr tr_nap w1 where n: "nap e w (sleep opts) = (nerr, tr_nap, w1)"
    by (cases "nap e w (sleep opts)") auto
  show ?thesis
  proof (cases nerr)
    case None
    from checkout_phase_runs [OF m Some n [unfolded None] refl] assms(1) show ?thesis by simp
  next
    case nerr: (Some x)
    from nap_raises [OF n [unfolded nerr]] have "\<exists>y. x = Exception y" .
    moreover from checkout_phase_nap_raises [OF m Some n [unfolded nerr]] assms(1)
    have "err = x" by simp
    ultimately show ?thesis by blast
  qed
qed

text \<open>The ways through \<open>purge_checkout\<close> and \<open>playbook_phase\<close>.\<close>

lemma purge_checkout_raises:
  "purge_checkout e w d = (Some err, tr, w1) \<Longrightarrow> \<exists>x. err = Exception x"
  by (cases "os_chdir e ''/'' w") (auto simp add: purge_checkout_def split_beta)

lemma purge_checkout_done:
  "os_chdir e ''/'' w = Inr w1 \<Longrightarrow> shutil_rmtree e d w1 = (exn, w2) \<Longrightarrow>
   purge_checkout e w d
     = (None,
        [Chdir ''/'', Rmtree d]
        @ (case exn of None \<Rightarrow> [] | Some x \<Rightarrow> [ErrorMsg (''Failed to remove '' @ d @ '': '' @ x)]),
        w2)"
  by (simp add: purge_checkout_def)

lemma playbook_phase_no_dest:
  "dest opts = None \<Longrightarrow> playbook_phase e w opts args = (Inl (Exception ''TypeError''), [], w)"
  by (simp add: playbook_phase_def)

lemma playbook_phase_no_playbook:
  "dest opts = Some d \<Longrightarrow> select_playbook e w args d = (None, ws) \<Longrightarrow>
   playbook_phase e w opts args = (Inl (AnsibleOptionsError no_playbook_msg), ws, w)"
  by (simp add: playbook_phase_def)

lemma playbook_phase_chdir_raises:
  "dest opts = Some d \<Longrightarrow> select_playbook e w args d = (Some pb, ws) \<Longrightarrow>
   os_chdir e d w = Inl x \<Longrightarrow>
   playbook_phase e w opts args = (Inl (Exception x), ws @ [Chdir d], w)"
  by (simp add: playbook_phase_def)

lemma playbook_phase_runs:
  "dest opts = Some d \<Longrightarrow> select_playbook e w args d = (Some pb, ws) \<Longrightarrow>
   os_chdir e d w = Inr w1 \<Longrightarrow>
   cmd = playbook_cmd e opts pb @ get_inv_cli e w1 opts \<Longrightarrow>
   run_cmd e cmd w1 = (res, w2) \<Longrightarrow>
   tr = ws @ [Chdir d, Debug ''running ansible-playbook to do actual work'',
              Debug (''EXEC: '' @ cmd), Exec cmd] \<Longrightarrow>
   \<not> purge opts \<Longrightarrow>
   playbook_phase e w opts args = (Inr (fst res), tr, w2)"
  by (simp add: playbook_phase_def Let_def)

lemma playbook_phase_purges:
  "dest opts = Some d \<Longrightarrow> select_playbook e w args d = (Some pb, ws) \<Longrightarrow>
   os_chdir e d w = Inr w1 \<Longrightarrow>
   cmd = playbook_cmd e opts pb @ get_inv_cli e w1 opts \<Longrightarrow>
   run_cmd e cmd w1 = (res, w2) \<Longrightarrow>
   tr = ws @ [Chdir d, Debug ''running ansible-playbook to do actual work'',
              Debug (''EXEC: '' @ cmd), Exec cmd] \<Longrightarrow>
   purge opts \<Longrightarrow>
   purge_checkout e w2 d = (perr, tr_p, w3) \<Longrightarrow>
   playbook_phase e w opts args
     = (case perr of Some err \<Rightarrow> Inl err | None \<Rightarrow> Inr (fst res), tr @ tr_p, w3)"
  by (cases perr) (simp_all add: playbook_phase_def Let_def)

lemma playbook_phase_raises:
  assumes "fst (playbook_phase e w opts args) = Inl err"
  shows "err = AnsibleOptionsError no_playbook_msg \<or> (\<exists>x. err = Exception x)"
proof (cases "dest opts")
  case None
  from playbook_phase_no_dest [OF None, of e w args] assms show ?thesis by auto
next
  case (Some d)
  obtain pb ws where s: "select_playbook e w args d = (pb, ws)"
    by (cases "select_playbook e w args d") auto
  show ?thesis
  proof (cases pb)
    case None
    from playbook_phase_no_playbook [OF Some s [unfolded None]] assms show ?thesis by simp
  next
    case pb: (Some playbook)
    show ?thesis
    proof (cases "os_chdir e d w")
      case (Inl x)
      from playbook_phase_chdir_raises [OF Some s [unfolded pb] Inl] assms show ?thesis by auto
    next
      case (Inr w1)
      let ?cmd = "playbook_cmd e opts playbook @ get_inv_cli e w1 opts"
      obtain r w2 where r: "run_cmd e ?cmd w1 = (r, w2)"
        by (cases "run_cmd e ?cmd w1") auto
      obtain perr tr_p w3 where p: "purge_checkout e w2 d = (perr, tr_p, w3)"
        by (cases "purge_checkout e w2 d") auto
      show ?thesis
      proof (cases "purge opts")
        case False
        from playbook_phase_runs [OF Some s [unfolded pb] Inr refl r refl False] assms
        show ?thesis by simp
      next
        case True
        note eq = playbook_phase_purges [OF Some s [unfolded pb] Inr refl r refl True p]
        show ?thesis
        proof (cases perr)
          case None
          with eq assms show ?thesis by simp
        next
          case perr: (Some x)
          from purge_checkout_raises [OF p [unfolded perr]] have "\<exists>y. x = Exception y" .
          moreover from eq perr assms have "err = x" by simp
          ultimately show ?thesis by blast
        qed
      qed
    qed
  qed
qed

lemma playbook_phase_executed:
  assumes "dest opts = Some d" and "select_playbook e w args d = (Some pb, ws)"
    and "os_chdir e d w = Inr w1"
  shows "executed (fst (snd (playbook_phase e w opts args)))
       = [playbook_cmd e opts pb @ get_inv_cli e w1 opts]"
proof -
  let ?cmd = "playbook_cmd e opts pb @ get_inv_cli e w1 opts"
  from executed_select_playbook [of e w args d] assms(2) have ws: "executed ws = []" by simp
  obtain r w2 where r: "run_cmd e ?cmd w1 = (r, w2)"
    by (cases "run_cmd e ?cmd w1") auto
  obtain perr tr_p w3 where p: "purge_checkout e w2 d = (perr, tr_p, w3)"
    by (cases "purge_checkout e w2 d") auto
  from executed_purge_checkout [of e w2 d] p have tr_p: "executed tr_p = []" by simp
  show ?thesis
  proof (cases "purge opts")
    case False
    from playbook_phase_runs [OF assms refl r refl False] ws show ?thesis
      by (simp add: executed_append)
  next
    case True
    from playbook_phase_purges [OF assms refl r refl True p] ws tr_p show ?thesis
      by (simp add: executed_append)
  qed
qed

text \<open>\<open>run\<close> in terms of its phases.\<close>

lemma run_checkout_raises:
  "checkout_phase e w opts scm_args = (Inl err, tr, w1) \<Longrightarrow>
   run e w opts args scm_args = (Inl err, tr, w1)"
  by (simp add: run_def)

lemma run_returns_early:
  "checkout_phase e w opts scm_args = (Inr (rc, b_out, b_err), tr, w1) \<Longrightarrow>
   checkout_gate opts rc b_out = (Some code, tr_g) \<Longrightarrow>
   run e w opts args scm_args = (Inr code, tr @ tr_g, w1)"
  by (simp add: run_def)

lemma run_goes_on:
  "checkout_phase e w opts scm_args = (Inr (rc, b_out, b_err), tr, w1) \<Longrightarrow>
   checkout_gate opts rc b_out = (None, tr_g) \<Longrightarrow>
   run e w opts args scm_args
     = (fst (playbook_phase e w1 opts args),
        tr @ tr_g @ fst (snd (playbook_phase e w1 opts args)),
        snd (snd (playbook_phase e w1 opts args)))"
  by (simp add: run_def split_beta)

lemma run_raises:
  assumes "fst (run e w opts args scm_args) = Inl err"
    and m: "module_name_opt opts \<in> set REPO_CHOICES"
  shows "err = AnsibleOptionsError (module_not_found_msg (module_name_opt opts))
       \<or> err = AnsibleOptionsError no_playbook_msg
       \<or> (\<exists>x. err = Exception x)"
proof -
  obtain c tr w1 where c: "checkout_phase e w opts scm_args = (c, tr, w1)"
    by (cases "checkout_phase e w opts scm_args") auto
  show ?thesis
  proof (cases c)
    case (Inl err')
    from run_checkout_raises [OF c [unfolded Inl]] assms(1) have "err' = err" by simp
    with Inl c checkout_phase_raises [OF _ m, of e w scm_args err] show ?thesis by auto
  next
    case (Inr res)
    obtain rc b_out b_err where res: "res = (rc, b_out, b_err)" by (cases res) auto
    obtain code tr_g where g: "checkout_gate opts rc b_out = (code, tr_g)"
      by (cases "checkout_gate opts rc b_out") auto
    show ?thesis
    proof (cases code)
      case None
      from run_goes_on [OF c [unfolded Inr res] g [unfolded None]] assms(1)
      have "fst (playbook_phase e w1 opts args) = Inl err" by simp
      from playbook_phase_raises [OF this] show ?thesis by blast
    next
      case (Some code')
      from run_returns_early [OF c [unfolded Inr res] g [unfolded Some]] assms(1)
      show ?thesis by simp
    qed
  qed
qed

section \<open>Playbook selection\<close>

text \<open>
  C3. With no explicit playbook (no positional argument, or a first one that is \<open>None\<close>),
  \<open>select_playbook\<close> takes the first of three candidates, in this order, that exists and
  is readable: \<open>fqdn.yml\<close>, then the name before the first dot of the fqdn with \<open>.yml\<close>,
  then \<open>local.yml\<close>, each joined to the checkout directory; it then warns of nothing. If
  none of the three will do, it gives one warning whose lines are the three reasons, in
  order, and returns no playbook, and its caller \<open>run\<close> (here in \<open>playbook_phase\<close>) raises
  the configuration error "Could not find a playbook to run.".
\<close>

theorem default_playbook_search:
  assumes "args = [] \<or> hd args = None"
  shows "select_playbook e w args path =
           (let fqdn = socket_getfqdn e;
                candidates = [path_join path (fqdn @ ''.yml''),
                              path_join path (before_first_dot fqdn @ ''.yml''),
                              path_join path ''local.yml'']
            in case find (\<lambda>pb. os_path_exists e w pb \<and> os_access_r e w pb) candidates of
                 Some pb \<Rightarrow> (Some pb, [])
               | None \<Rightarrow>
                   (None,
                    [Warning (str_join [CHR 0x0A]
                       (map (\<lambda>pb. pb @ '': '' @ (if \<not> os_path_exists e w pb
                                                  then ''File does not exist''
                                                  else ''File is not readable''))
                            candidates))]))
       \<and> (dest opts = Some path \<and> fst (select_playbook e w args path) = None
            \<longrightarrow> fst (playbook_phase e w opts args)
                = Inl (AnsibleOptionsError ''Could not find a playbook to run.''))"
proof -
  let ?ok = "\<lambda>pb. os_path_exists e w pb \<and> os_access_r e w pb"
  let ?why = "\<lambda>pb. pb @ '': '' @ (if \<not> os_path_exists e w pb then ''File does not exist''
                                   else ''File is not readable'')"
  have no_arg: "(case args of [] \<Rightarrow> None | a # _ \<Rightarrow> a) = None"
    using assms by (cases args) auto
  have ok: "(\<lambda>pb. try_playbook e w pb = 0) = ?ok"
    by (simp add: try_playbook_accepts)
  have why: "(\<lambda>pb. pb @ '': '' @ PLAYBOOK_ERRORS (try_playbook e w pb)) = ?why"
    by (rule ext) (simp add: try_playbook_def)
  have first: "select_playbook e w args path =
      (let fqdn = socket_getfqdn e;
           candidates = [path_join path (fqdn @ ''.yml''),
                         path_join path (before_first_dot fqdn @ ''.yml''),
                         path_join path ''local.yml'']
       in case find ?ok candidates of
            Some pb \<Rightarrow> (Some pb, [])
          | None \<Rightarrow> (None, [Warning (str_join [CHR 0x0A] (map ?why candidates))]))"
    unfolding select_playbook_def no_arg try_candidates_find ok why DEFAULT_PLAYBOOK_def
    by (simp add: Let_def split: option.splits)
  have caller: "fst (playbook_phase e w opts args)
      = Inl (AnsibleOptionsError ''Could not find a playbook to run.'')"
    if "dest opts = Some path" "fst (select_playbook e w args path) = None"
  proof -
    from that(2) have "select_playbook e w args path = (None, snd (select_playbook e w args path))"
      by (cases "select_playbook e w args path") simp
    from playbook_phase_no_playbook [OF that(1) this] show ?thesis
      by (simp add: no_playbook_msg_def)
  qed
  from first caller show ?thesis by blast
qed

theorem default_playbook_search_witness:
  "select_playbook (example_env 0 [] 0 None) checked_out_world [] example_dest
     = (Some ''/root/.ansible/pull/node1.example.com/local.yml'', [])
   \<and> select_playbook (example_env 0 [] 0 None) empty_world [] example_dest
     = (None,
        [Warning (''/root/.ansible/pull/node1.example.com/node1.example.com.yml: File does not exist''
                  @ [CHR 0x0A]
                  @ ''/root/.ansible/pull/node1.example.com/node1.yml: File does not exist''
                  @ [CHR 0x0A]
                  @ ''/root/.ansible/pull/node1.example.com/local.yml: File does not exist'')])
   \<and> fst (playbook_phase (example_env 0 [] 0 None) empty_world reconciled_options [])
     = Inl (AnsibleOptionsError ''Could not find a playbook to run.'')"
proof -
  let ?e = "example_env 0 [] 0 None"
  have no_arg: "([] :: string option list) = [] \<or> hd ([] :: string option list) = None"
    by simp
  note search = default_playbook_search [OF no_arg, where e = ?e and path = example_dest
      and opts = reconciled_options]
  have found: "select_playbook ?e checked_out_world [] example_dest
      = (Some ''/root/.ansible/pull/node1.example.com/local.yml'', [])"
    using search [where w = checked_out_world]
    by (simp add: example_env_def checked_out_world_def example_dest_def path_join_def
        before_first_dot_def)
  have missing: "select_playbook ?e empty_world [] example_dest
      = (None,
         [Warning (''/root/.ansible/pull/node1.example.com/node1.example.com.yml: File does not exist''
                   @ [CHR 0x0A]
                   @ ''/root/.ansible/pull/node1.example.com/node1.yml: File does not exist''
                   @ [CHR 0x0A]
                   @ ''/root/.ansible/pull/node1.example.com/local.yml: File does not exist'')])"
    using search [where w = empty_world]
    by (simp add: example_env_def empty_world_def example_dest_def path_join_def
        before_first_dot_def)
  have d: "dest reconciled_options = Some example_dest"
    by (simp add: reconciled_options_def)
  from missing have "fst (select_playbook ?e empty_world [] example_dest) = None" by simp
  with search [where w = empty_world] d
  have raised: "fst (playbook_phase ?e empty_world reconciled_options [])
      = Inl (AnsibleOptionsError ''Could not find a playbook to run.'')"
    by blast
  from found missing raised show ?thesis by simp
qed

text \<open>
  C6. With an explicit playbook \<open>a\<close> as first positional argument, \<open>select_playbook\<close> joins
  it to the checkout directory and tests that path alone: if it does not exist, the result
  is no playbook and the warning "\<open>path\<close>: File does not exist"; if it exists and is not
  readable, no playbook and "\<open>path\<close>: File is not readable"; otherwise the joined path and
  no warning. The host name and \<open>local.yml\<close> candidates play no part in the result.
\<close>

theorem explicit_playbook:
  assumes "args = Some a # rest"
  shows "select_playbook e w args path =
           (if \<not> os_path_exists e w (path_join path a)
            then (None, [Warning (path_join path a @ '': File does not exist'')])
            else if \<not> os_access_r e w (path_join path a)
            then (None, [Warning (path_join path a @ '': File is not readable'')])
            else (Some (path_join path a), []))"
  using assms by (simp add: select_playbook_def try_playbook_def Let_def)

theorem explicit_playbook_witness:
  "select_playbook (example_env 0 [] 0 None) checked_out_world [Some ''local.yml''] example_dest
     = (Some ''/root/.ansible/pull/node1.example.com/local.yml'', [])
   \<and> select_playbook (example_env 0 [] 0 None) checked_out_world [Some ''site.yml''] example_dest
     = (None, [Warning ''/root/.ansible/pull/node1.example.com/site.yml: File does not exist''])
   \<and> select_playbook ((example_env 0 [] 0 None)\<lparr>os_access_r := \<lambda>w p. False\<rparr>) checked_out_world
       [Some ''local.yml''] example_dest
     = (None, [Warning ''/root/.ansible/pull/node1.example.com/local.yml: File is not readable''])"
proof -
  let ?e = "example_env 0 [] 0 None"
  have a: "select_playbook ?e checked_out_world [Some ''local.yml''] example_dest
      = (Some ''/root/.ansible/pull/node1.example.com/local.yml'', [])"
    using explicit_playbook [of "[Some ''local.yml'']" "''local.yml''" "[]" ?e checked_out_world
        example_dest]
    by (simp add: example_env_def checked_out_world_def example_dest_def path_join_def)
  have b: "select_playbook ?e checked_out_world [Some ''site.yml''] example_dest
      = (None, [Warning ''/root/.ansible/pull/node1.example.com/site.yml: File does not exist''])"
    using explicit_playbook [of "[Some ''site.yml'']" "''site.yml''" "[]" ?e checked_out_world
        example_dest]
    by (simp add: example_env_def checked_out_world_def example_dest_def path_join_def)
  have c: "select_playbook (?e\<lparr>os_access_r := \<lambda>w p. False\<rparr>) checked_out_world
        [Some ''local.yml''] example_dest
      = (None, [Warning ''/root/.ansible/pull/node1.example.com/local.yml: File is not readable''])"
    using explicit_playbook [of "[Some ''local.yml'']" "''local.yml''" "[]"
        "?e\<lparr>os_access_r := \<lambda>w p. False\<rparr>" checked_out_world example_dest]
    by (simp add: example_env_def checked_out_world_def example_dest_def path_join_def)
  from a b c show ?thesis by simp
qed

section \<open>The SCM options of git\<close>

text \<open>
  C4. For the git module, the \<open>depth\<close> entry of the generic argument map after the SCM
  options block of \<open>run\<close>: without \<open>--full\<close> and without a \<open>depth\<close> entry the block adds
  \<open>depth=1\<close>; with \<open>--full\<close> and a \<open>depth\<close> entry it removes the entry and warns; in the
  two other cases the entry is as it was. The warning about \<open>depth\<close> is given in the
  second case only.
\<close>

theorem git_depth_default:
  assumes "module_name_opt opts = ''git''"
  shows "(\<not> fullclone opts \<and> map_of scm_args ''depth'' = None
            \<longrightarrow> map_of (fst (scm_options opts scm_args)) ''depth'' = Some ''1''
                \<and> Warning (removed_msg ''depth'') \<notin> set (snd (scm_options opts scm_args)))
       \<and> (fullclone opts \<and> map_of scm_args ''depth'' \<noteq> None
            \<longrightarrow> map_of (fst (scm_options opts scm_args)) ''depth'' = None
                \<and> Warning (removed_msg ''depth'') \<in> set (snd (scm_options opts scm_args)))
       \<and> (\<not> fullclone opts \<and> map_of scm_args ''depth'' \<noteq> None
            \<or> fullclone opts \<and> map_of scm_args ''depth'' = None
            \<longrightarrow> map_of (fst (scm_options opts scm_args)) ''depth'' = map_of scm_args ''depth''
                \<and> Warning (removed_msg ''depth'') \<notin> set (snd (scm_options opts scm_args)))"
  using assms
  by (simp add: scm_options_def Let_def map_of_when_flag map_of_set_arg map_of_override_arg
      map_of_shallow_default snd_when_flag snd_set_arg snd_override_arg snd_shallow_default
      removed_msg_def overridden_msg_def)

theorem git_depth_default_witness:
  "map_of (fst (scm_options reconciled_options [])) ''depth'' = Some ''1''
   \<and> map_of (fst (scm_options (reconciled_options\<lparr>fullclone := True\<rparr>) [(''depth'', ''3'')]))
       ''depth'' = None
   \<and> snd (scm_options (reconciled_options\<lparr>fullclone := True\<rparr>) [(''depth'', ''3'')])
     = [Warning (removed_msg ''depth'')]
   \<and> map_of (fst (scm_options reconciled_options [(''depth'', ''3'')])) ''depth'' = Some ''3''
   \<and> map_of (fst (scm_options (reconciled_options\<lparr>fullclone := True\<rparr>) [])) ''depth'' = None"
proof -
  have git: "module_name_opt reconciled_options = ''git''"
    "module_name_opt (reconciled_options\<lparr>fullclone := True\<rparr>) = ''git''"
    by (simp_all add: reconciled_options_def example_options_def default_options_def
        DEFAULT_REPO_TYPE_def)
  have shallow: "\<not> fullclone reconciled_options"
    by (simp add: reconciled_options_def example_options_def default_options_def)
  have a: "map_of (fst (scm_options reconciled_options [])) ''depth'' = Some ''1''"
    using git_depth_default [OF git(1), of "[]"] shallow by simp
  have b: "map_of (fst (scm_options (reconciled_options\<lparr>fullclone := True\<rparr>) [(''depth'', ''3'')]))
      ''depth'' = None"
    using git_depth_default [OF git(2), of "[(''depth'', ''3'')]"] by simp
  have c: "snd (scm_options (reconciled_options\<lparr>fullclone := True\<rparr>) [(''depth'', ''3'')])
      = [Warning (removed_msg ''depth'')]"
    by code_simp
  have d: "map_of (fst (scm_options reconciled_options [(''depth'', ''3'')])) ''depth'' = Some ''3''"
    using git_depth_default [OF git(1), of "[(''depth'', ''3'')]"] shallow by simp
  have e: "map_of (fst (scm_options (reconciled_options\<lparr>fullclone := True\<rparr>) [])) ''depth'' = None"
    using git_depth_default [OF git(2), of "[]"] by simp
  from a b c d e show ?thesis by simp
qed


section \<open>The orchestrator\<close>

text \<open>
  C2. Let the checkout phase of \<open>run\<close> end with the checkout subprocess returning
  \<open>(rc, b_out, b_err)\<close>; up to there exactly one subprocess was run, the checkout command.
  If \<open>rc\<close> is not 0 and \<open>--force\<close> is not set, \<open>run\<close> returns \<open>rc\<close> with no further event,
  so without a playbook subprocess. If \<open>rc\<close> is not 0 and \<open>--force\<close> is set, \<open>run\<close> warns
  and goes on with playbook selection and execution (\<open>playbook_phase\<close>); when a playbook
  is found and the checkout directory can be entered, the playbook command is the second
  and last subprocess. If \<open>rc\<close> is 0, \<open>--only-if-changed\<close> is set and \<open>b_out\<close> does not
  contain \<open>"changed": true\<close>, \<open>run\<close> says so and returns 0, again with the checkout as its
  only subprocess.
\<close>

theorem checkout_result_policy:
  assumes "checkout_phase e w opts scm_args = (Inr (rc, b_out, b_err), tr, w1)"
  shows "executed tr
           = [checkout_cmd e (checkout_inv_opts e w opts) opts (fst (scm_options opts scm_args))]
       \<and> (rc \<noteq> 0 \<and> \<not> force opts \<longrightarrow> run e w opts args scm_args = (Inr rc, tr, w1))
       \<and> (rc \<noteq> 0 \<and> force opts
            \<longrightarrow> run e w opts args scm_args
                = (fst (playbook_phase e w1 opts args),
                   tr @ [Warning ''Unable to update repository. Continuing with (forced) run of playbook.'']
                      @ fst (snd (playbook_phase e w1 opts args)),
                   snd (snd (playbook_phase e w1 opts args))))
       \<and> (rc \<noteq> 0 \<and> force opts \<and> dest opts = Some d
            \<and> select_playbook e w1 args d = (Some pb, ws) \<and> os_chdir e d w1 = Inr w2
            \<longrightarrow> executed (fst (snd (run e w opts args scm_args)))
                = [checkout_cmd e (checkout_inv_opts e w opts) opts (fst (scm_options opts scm_args)),
                   playbook_cmd e opts pb @ get_inv_cli e w2 opts])
       \<and> (rc = 0 \<and> ifchanged opts \<and> \<not> sublist changed_marker b_out
            \<longrightarrow> run e w opts args scm_args
                  = (Inr 0, tr @ [Display ''Repository has not changed, quitting.''], w1)
                \<and> executed (tr @ [Display ''Repository has not changed, quitting.'']) = executed tr)"
proof -
  let ?warning = "Warning ''Unable to update repository. Continuing with (forced) run of playbook.''"
  from assms have "fst (checkout_phase e w opts scm_args) = Inr (rc, b_out, b_err)" by simp
  from checkout_phase_executed [OF this] assms
  have one: "executed tr
      = [checkout_cmd e (checkout_inv_opts e w opts) opts (fst (scm_options opts scm_args))]"
    by simp
  have abort: "run e w opts args scm_args = (Inr rc, tr, w1)" if "rc \<noteq> 0" "\<not> force opts"
    using run_returns_early [OF assms, where code = rc and tr_g = "[]"] that
    by (simp add: checkout_gate_def)
  have forced: "run e w opts args scm_args
      = (fst (playbook_phase e w1 opts args),
         tr @ [?warning] @ fst (snd (playbook_phase e w1 opts args)),
         snd (snd (playbook_phase e w1 opts args)))"
    if "rc \<noteq> 0" "force opts"
    using run_goes_on [OF assms, where tr_g = "[?warning]"] that
    by (simp add: checkout_gate_def)
  have both: "executed (fst (snd (run e w opts args scm_args)))
      = [checkout_cmd e (checkout_inv_opts e w opts) opts (fst (scm_options opts scm_args)),
         playbook_cmd e opts pb @ get_inv_cli e w2 opts]"
    if "rc \<noteq> 0" "force opts" "dest opts = Some d"
      "select_playbook e w1 args d = (Some pb, ws)" "os_chdir e d w1 = Inr w2"
    using forced [OF that(1,2)] one playbook_phase_executed [OF that(3,4,5)]
    by (simp add: executed_append)
  have unchanged: "run e w opts args scm_args
      = (Inr 0, tr @ [Display ''Repository has not changed, quitting.''], w1)"
    if "rc = 0" "ifchanged opts" "\<not> sublist changed_marker b_out"
    using run_returns_early [OF assms, where code = 0
        and tr_g = "[Display ''Repository has not changed, quitting.'']"] that
    by (simp add: checkout_gate_def)
  have quiet: "executed (tr @ [Display ''Repository has not changed, quitting.'']) = executed tr"
    by (simp add: executed_append)
  from one abort forced both unchanged quiet show ?thesis by blast
qed

theorem checkout_result_policy_witness:
  "fst (run (example_env 2 [] 0 None) empty_world reconciled_options [] []) = Inr 2
   \<and> length (executed (fst (snd (run (example_env 2 [] 0 None) empty_world
                                    reconciled_options [] [])))) = 1
   \<and> fst (run (example_env 2 [] 5 None) checked_out_world
            (reconciled_options\<lparr>force := True\<rparr>) [] []) = Inr 5
   \<and> length (executed (fst (snd (run (example_env 2 [] 5 None) checked_out_world
                                    (reconciled_options\<lparr>force := True\<rparr>) [] [])))) = 2
   \<and> fst (run (example_env 0 [] 0 None) empty_world
            (reconciled_options\<lparr>ifchanged := True\<rparr>) [] []) = Inr 0
   \<and> length (executed (fst (snd (run (example_env 0 [] 0 None) empty_world
                                    (reconciled_options\<lparr>ifchanged := True\<rparr>) [] [])))) = 1"
proof -
  let ?ea = "example_env 2 [] 0 None"
  let ?eb = "example_env 2 [] 5 None"
  let ?ec = "example_env 0 [] 0 None"
  let ?ob = "reconciled_options\<lparr>force := True\<rparr>"
  let ?oc = "reconciled_options\<lparr>ifchanged := True\<rparr>"
  let ?ca = "checkout_phase ?ea empty_world reconciled_options []"
  let ?cb = "checkout_phase ?eb checked_out_world ?ob []"
  let ?cc = "checkout_phase ?ec empty_world ?oc []"
  have "fst ?ca = Inr (2, [], [])" by code_simp
  then have ca: "?ca = (Inr (2, [], []), fst (snd ?ca), snd (snd ?ca))"
    by (metis prod.collapse)
  have "fst ?cb = Inr (2, [], [])" by code_simp
  then have cb: "?cb = (Inr (2, [], []), fst (snd ?cb), snd (snd ?cb))"
    by (metis prod.collapse)
  have "fst ?cc = Inr (0, [], [])" by code_simp
  then have cc: "?cc = (Inr (0, [], []), fst (snd ?cc), snd (snd ?cc))"
    by (metis prod.collapse)
  have fa: "\<not> force reconciled_options" and fb: "force ?ob" and ic: "ifchanged ?oc"
    by (simp_all add: reconciled_options_def example_options_def default_options_def)
  have db: "dest ?ob = Some example_dest"
    by (simp add: reconciled_options_def)
  have sb: "select_playbook ?eb (snd (snd ?cb)) [] example_dest
      = (Some ''/root/.ansible/pull/node1.example.com/local.yml'', [])"
    by code_simp
  have hb: "os_chdir ?eb example_dest (snd (snd ?cb)) = Inr (checked_out_world\<lparr>cwd := example_dest\<rparr>)"
    by code_simp
  have pb: "fst (playbook_phase ?eb (snd (snd ?cb)) ?ob []) = Inr 5"
    by code_simp
  have mc: "\<not> sublist changed_marker []"
    by (simp add: changed_marker_def)
  note a = checkout_result_policy [OF ca, where args = "[]"]
  note b = checkout_result_policy [OF cb, where args = "[]" and d = example_dest
      and pb = "''/root/.ansible/pull/node1.example.com/local.yml''" and ws = "[]"
      and ?w2.0 = "checked_out_world\<lparr>cwd := example_dest\<rparr>"]
  note c = checkout_result_policy [OF cc, where args = "[]"]
  from a [THEN conjunct2, THEN conjunct1] fa
  have ra: "run ?ea empty_world reconciled_options [] [] = (Inr 2, fst (snd ?ca), snd (snd ?ca))"
    by simp
  then have a1: "fst (run ?ea empty_world reconciled_options [] []) = Inr 2" by simp
  from ra a [THEN conjunct1]
  have a2: "length (executed (fst (snd (run ?ea empty_world reconciled_options [] [])))) = 1"
    by simp
  from b [THEN conjunct2, THEN conjunct2, THEN conjunct1] fb
  have "fst (run ?eb checked_out_world ?ob [] []) = fst (playbook_phase ?eb (snd (snd ?cb)) ?ob [])"
    by simp
  with pb have b1: "fst (run ?eb checked_out_world ?ob [] []) = Inr 5" by simp
  from b [THEN conjunct2, THEN conjunct2, THEN conjunct2, THEN conjunct1] fb db sb hb
  have "executed (fst (snd (run ?eb checked_out_world ?ob [] [])))
      = [checkout_cmd ?eb (checkout_inv_opts ?eb checked_out_world ?ob) ?ob (fst (scm_options ?ob [])),
         playbook_cmd ?eb ?ob ''/root/.ansible/pull/node1.example.com/local.yml''
         @ get_inv_cli ?eb (checked_out_world\<lparr>cwd := example_dest\<rparr>) ?ob]"
    by simp
  then have b2: "length (executed (fst (snd (run ?eb checked_out_world ?ob [] [])))) = 2"
    by simp
  from c [THEN conjunct2, THEN conjunct2, THEN conjunct2, THEN conjunct2] ic mc
  have rc: "run ?ec empty_world ?oc [] []
      = (Inr 0, fst (snd ?cc) @ [Display ''Repository has not changed, quitting.''], snd (snd ?cc))"
    by simp
  then have c1: "fst (run ?ec empty_world ?oc [] []) = Inr 0" by simp
  from rc c [THEN conjunct1]
  have c2: "length (executed (fst (snd (run ?ec empty_world ?oc [] [])))) = 1"
    by (simp add: executed_append)
  from a1 a2 b1 b2 c1 c2 show ?thesis by simp
qed

text \<open>
  C8. Let \<open>--purge\<close> be set and let \<open>run\<close> reach the playbook subprocess (a playbook is
  found, the checkout directory is entered), which returns \<open>rc\<close>. Then \<open>run\<close> next changes
  the working directory to \<open>/\<close> and calls \<open>shutil.rmtree\<close> on the checkout directory, in
  this order and after the subprocess; if that call raises, one error is logged, "Failed to
  remove \<open>d\<close>: \<open>x\<close>"; in both cases \<open>run\<close> returns \<open>rc\<close>. The first equation is about the
  last phase of \<open>run\<close>, the second about \<open>run\<close> as a whole.
\<close>

theorem purge_after_playbook:
  assumes "purge opts" and "dest opts = Some d"
    and "select_playbook e w1 args d = (Some pb, ws)"
    and "os_chdir e d w1 = Inr w2"
    and "cmd = playbook_cmd e opts pb @ get_inv_cli e w2 opts"
    and "run_cmd e cmd w2 = ((rc, b_out, b_err), w3)"
    and "os_chdir e ''/'' w3 = Inr w4"
    and "shutil_rmtree e d w4 = (exn, w5)"
    and "tr_p = ws @ [Chdir d, Debug ''running ansible-playbook to do actual work'',
                      Debug (''EXEC: '' @ cmd), Exec cmd, Chdir ''/'', Rmtree d]
                @ (case exn of
                     None \<Rightarrow> []
                   | Some x \<Rightarrow> [ErrorMsg (''Failed to remove '' @ d @ '': '' @ x)])"
  shows "playbook_phase e w1 opts args = (Inr rc, tr_p, w5)
       \<and> (checkout_phase e w opts scm_args = (Inr (rc1, out1, err1), tr, w1)
            \<and> checkout_gate opts rc1 out1 = (None, tr_g)
            \<longrightarrow> run e w opts args scm_args = (Inr rc, tr @ tr_g @ tr_p, w5))"
proof -
  from purge_checkout_done [OF assms(7,8)]
  have "purge_checkout e w3 d
      = (None,
         [Chdir ''/'', Rmtree d]
         @ (case exn of None \<Rightarrow> [] | Some x \<Rightarrow> [ErrorMsg (''Failed to remove '' @ d @ '': '' @ x)]),
         w5)" .
  from playbook_phase_purges [OF assms(2,3,4,5,6) refl assms(1) this] assms(9)
  have last: "playbook_phase e w1 opts args = (Inr rc, tr_p, w5)" by simp
  have whole: "run e w opts args scm_args = (Inr rc, tr @ tr_g @ tr_p, w5)"
    if "checkout_phase e w opts scm_args = (Inr (rc1, out1, err1), tr, w1)"
      "checkout_gate opts rc1 out1 = (None, tr_g)"
    using run_goes_on [OF that] last by simp
  from last whole show ?thesis by blast
qed

theorem purge_after_playbook_witness:
  "fst (run (example_env 0 [] 4 (Some ''busy'')) empty_world
          (reconciled_options\<lparr>purge := True\<rparr>) [] []) = Inr 4
   \<and> ErrorMsg ''Failed to remove /root/.ansible/pull/node1.example.com: busy''
       \<in> set (fst (snd (run (example_env 0 [] 4 (Some ''busy'')) empty_world
                          (reconciled_options\<lparr>purge := True\<rparr>) [] [])))
   \<and> run (example_env 0 [] 4 None) empty_world (reconciled_options\<lparr>purge := True\<rparr>) [] []
     = (Inr 4,
        fst (snd (run (example_env 0 [] 4 None) empty_world
                    (reconciled_options\<lparr>purge := True\<rparr>) [] [])),
        empty_world)"
proof -
  let ?ea = "example_env 0 [] 4 (Some ''busy'')"
  let ?eb = "example_env 0 [] 4 None"
  let ?o = "reconciled_options\<lparr>purge := True\<rparr>"
  let ?pb = "''/root/.ansible/pull/node1.example.com/local.yml''"
  let ?w2 = "checked_out_world\<lparr>cwd := example_dest\<rparr>"
  let ?ca = "checkout_phase ?ea empty_world ?o []"
  let ?cb = "checkout_phase ?eb empty_world ?o []"
  have p: "purge ?o" by simp
  have d: "dest ?o = Some example_dest" by (simp add: reconciled_options_def)
  have "fst ?ca = Inr (0, [], [])" and "snd (snd ?ca) = checked_out_world" by code_simp+
  then have ca: "?ca = (Inr (0, [], []), fst (snd ?ca), checked_out_world)"
    by (metis prod.collapse)
  have "fst ?cb = Inr (0, [], [])" and "snd (snd ?cb) = checked_out_world" by code_simp+
  then have cb: "?cb = (Inr (0, [], []), fst (snd ?cb), checked_out_world)"
    by (metis prod.collapse)
  have g: "checkout_gate ?o 0 [] = (None, [])"
    by (simp add: checkout_gate_def reconciled_options_def example_options_def default_options_def)
  have sa: "select_playbook ?ea checked_out_world [] example_dest = (Some ?pb, [])"
    and sb: "select_playbook ?eb checked_out_world [] example_dest = (Some ?pb, [])"
    by code_simp+
  have ha: "os_chdir ?ea example_dest checked_out_world = Inr ?w2"
    and hb: "os_chdir ?eb example_dest checked_out_world = Inr ?w2"
    by code_simp+
  have ra: "run_cmd ?ea (playbook_cmd ?ea ?o ?pb @ get_inv_cli ?ea ?w2 ?o) ?w2 = ((4, [], []), ?w2)"
    and rb: "run_cmd ?eb (playbook_cmd ?eb ?o ?pb @ get_inv_cli ?eb ?w2 ?o) ?w2 = ((4, [], []), ?w2)"
    by code_simp+
  have ta: "os_chdir ?ea ''/'' ?w2 = Inr checked_out_world"
    and tb: "os_chdir ?eb ''/'' ?w2 = Inr checked_out_world"
    by code_simp+
  have ma: "shutil_rmtree ?ea example_dest checked_out_world = (Some ''busy'', checked_out_world)"
    and mb: "shutil_rmtree ?eb example_dest checked_out_world = (None, empty_world)"
    by code_simp+
  from purge_after_playbook [OF p d sa ha refl ra ta ma refl, where w = empty_world
      and scm_args = "[]" and ?rc1.0 = 0 and ?out1.0 = "[]" and ?err1.0 = "[]"
      and tr = "fst (snd ?ca)" and tr_g = "[]"] ca g
  have a: "run ?ea empty_world ?o [] []
      = (Inr 4,
         fst (snd ?ca) @ [] @ [] @
         [Chdir example_dest, Debug ''running ansible-playbook to do actual work'',
          Debug (''EXEC: '' @ playbook_cmd ?ea ?o ?pb @ get_inv_cli ?ea ?w2 ?o),
          Exec (playbook_cmd ?ea ?o ?pb @ get_inv_cli ?ea ?w2 ?o), Chdir ''/'', Rmtree example_dest]
         @ [ErrorMsg (''Failed to remove '' @ example_dest @ '': '' @ ''busy'')],
         checked_out_world)"
    by simp
  from purge_after_playbook [OF p d sb hb refl rb tb mb refl, where w = empty_world
      and scm_args = "[]" and ?rc1.0 = 0 and ?out1.0 = "[]" and ?err1.0 = "[]"
      and tr = "fst (snd ?cb)" and tr_g = "[]"] cb g
  have b: "run ?eb empty_world ?o [] [] = (Inr 4, fst (snd (run ?eb empty_world ?o [] [])), empty_world)"
    by simp
  from a have a1: "fst (run ?ea empty_world ?o [] []) = Inr 4" by simp
  from a have a2: "ErrorMsg ''Failed to remove /root/.ansible/pull/node1.example.com: busy''
      \<in> set (fst (snd (run ?ea empty_world ?o [] [])))"
    by (simp add: example_dest_def)
  from a1 a2 b show ?thesis by simp
qed

text \<open>
  C9. Whenever \<open>parse\<close> returns, the module name is \<open>git\<close>. Hence \<open>run\<close>, in whatever
  environment, never raises the "Unsupported (...) SCM module for pull" error, and the SCM
  options block does none of what it holds for subversion, hg and bzr: the \<open>repo\<close>,
  \<open>revision\<close> and \<open>export\<close> entries of the generic argument map come out as they went in,
  and neither the \<open>export\<close> warning nor the \<open>revision\<close> warning is given.
\<close>

theorem only_git_reaches_run:
  assumes "parse e w opts = Inr (opts', scm_args)"
  shows "module_name_opt opts' = ''git''
       \<and> fst (run e' w' opts' args scm_args) \<noteq> Inl (AnsibleOptionsError (unsupported_scm_msg m))
       \<and> map_of (fst (scm_options opts' scm_args)) ''repo'' = map_of scm_args ''repo''
       \<and> map_of (fst (scm_options opts' scm_args)) ''revision'' = map_of scm_args ''revision''
       \<and> map_of (fst (scm_options opts' scm_args)) ''export'' = map_of scm_args ''export''
       \<and> Warning (removed_msg ''export'') \<notin> set (snd (scm_options opts' scm_args))
       \<and> Warning (overridden_msg ''revision'' ''deprecated -C or --checkout'')
           \<notin> set (snd (scm_options opts' scm_args))"
proof -
  from parse_Inr_module [OF assms] have git: "module_name_opt opts' = ''git''" .
  then have choice: "module_name_opt opts' \<in> set REPO_CHOICES"
    by (simp add: REPO_CHOICES_def)
  have reachable: "fst (run e' w' opts' args scm_args)
      \<noteq> Inl (AnsibleOptionsError (unsupported_scm_msg m))"
  proof
    assume "fst (run e' w' opts' args scm_args) = Inl (AnsibleOptionsError (unsupported_scm_msg m))"
    from run_raises [OF this choice] show False
      by (simp add: unsupported_scm_msg_def module_not_found_msg_def no_playbook_msg_def)
  qed
  have entries: "map_of (fst (scm_options opts' scm_args)) ''repo'' = map_of scm_args ''repo''"
    "map_of (fst (scm_options opts' scm_args)) ''revision'' = map_of scm_args ''revision''"
    "map_of (fst (scm_options opts' scm_args)) ''export'' = map_of scm_args ''export''"
    using git
    by (simp_all add: scm_options_def Let_def map_of_when_flag map_of_set_arg map_of_override_arg
        map_of_shallow_default)
  have warnings: "Warning (removed_msg ''export'') \<notin> set (snd (scm_options opts' scm_args))"
    "Warning (overridden_msg ''revision'' ''deprecated -C or --checkout'')
       \<notin> set (snd (scm_options opts' scm_args))"
    using git
    by (simp_all add: scm_options_def Let_def snd_when_flag snd_set_arg snd_override_arg
        snd_shallow_default removed_msg_def overridden_msg_def)
  from git reachable entries warnings show ?thesis by blast
qed

theorem only_git_reaches_run_witness:
  "parse (example_env 0 [] 0 None) empty_world
     (example_options\<lparr>checkout := Some ''v1.2'', module_args := Some ''revision=7 export=no''\<rparr>)
     = Inr (reconciled_options\<lparr>checkout := Some ''v1.2'',
                                module_args := Some ''revision=7 export=no''\<rparr>,
            [(''revision'', ''7''), (''export'', ''no'')])
   \<and> module_name_opt (reconciled_options\<lparr>checkout := Some ''v1.2'',
                                           module_args := Some ''revision=7 export=no''\<rparr>) = ''git''
   \<and> map_of (fst (scm_options (reconciled_options\<lparr>checkout := Some ''v1.2'',
                                   module_args := Some ''revision=7 export=no''\<rparr>)
                   [(''revision'', ''7''), (''export'', ''no'')])) ''revision'' = Some ''7''
   \<and> map_of (fst (scm_options (reconciled_options\<lparr>checkout := Some ''v1.2'',
                                   module_args := Some ''revision=7 export=no''\<rparr>)
                   [(''revision'', ''7''), (''export'', ''no'')])) ''export'' = Some ''no''
   \<and> map_of (fst (scm_options (reconciled_options\<lparr>checkout := Some ''v1.2'',
                                   module_args := Some ''revision=7 export=no''\<rparr>)
                   [(''revision'', ''7''), (''export'', ''no'')])) ''repo'' = None"
proof -
  let ?e = "example_env 0 [] 0 None"
  let ?o = "example_options\<lparr>checkout := Some ''v1.2'', module_args := Some ''revision=7 export=no''\<rparr>"
  let ?o' = "reconciled_options\<lparr>checkout := Some ''v1.2'',
                                 module_args := Some ''revision=7 export=no''\<rparr>"
  let ?s = "[(''revision'', ''7''), (''export'', ''no'')]"
  have p: "parse ?e empty_world ?o = Inr (?o', ?s)" by code_simp
  note t = only_git_reaches_run [OF p, where e' = ?e and w' = empty_world and args = "[]"
      and m = "''git''"]
  from t have git: "module_name_opt ?o' = ''git''" by blast
  from t have "map_of (fst (scm_options ?o' ?s)) ''revision'' = map_of ?s ''revision''" by blast
  then have r: "map_of (fst (scm_options ?o' ?s)) ''revision'' = Some ''7''" by simp
  from t have "map_of (fst (scm_options ?o' ?s)) ''export'' = map_of ?s ''export''" by blast
  then have x: "map_of (fst (scm_options ?o' ?s)) ''export'' = Some ''no''" by simp
  from t have "map_of (fst (scm_options ?o' ?s)) ''repo'' = map_of ?s ''repo''" by blast
  then have n: "map_of (fst (scm_options ?o' ?s)) ''repo'' = None" by simp
  from p git r x n show ?thesis by simp
qed


end
